theory Spec2Isabelle
  imports Main "HOL-Library.Sublist"
begin

section \<open>Python text helpers used by both scripts\<close>

text \<open>
  Text is a \<open>string\<close>. A file's content is the text that Python's text-mode \<open>open\<close>
  hands out, that is with every line terminator already translated to the newline
  character.
\<close>

definition nl :: char where
  "nl = CHR 0x0A"

text \<open>Python's \<open>needle in hay\<close> on two strings: \<open>needle\<close> occurs as a contiguous piece.\<close>

definition str_in :: "string \<Rightarrow> string \<Rightarrow> bool" where
  "str_in needle hay = sublist needle hay"

text \<open>
  \<open>handle.readlines()\<close>: the content cut after every newline, each line keeping its
  newline; a last line without newline is kept as it is, an empty content has no line.
\<close>

fun lines_acc :: "string \<Rightarrow> string \<Rightarrow> string list" where
  "lines_acc acc [] = (if acc = [] then [] else [acc])"
| "lines_acc acc (c # cs) =
     (if c = nl then (acc @ [c]) # lines_acc [] cs else lines_acc (acc @ [c]) cs)"

definition readlines :: "string \<Rightarrow> string list" where
  "readlines content = lines_acc [] content"

text \<open>\<open>sep.join(xs)\<close>.\<close>

fun str_join :: "string \<Rightarrow> string list \<Rightarrow> string" where
  "str_join sep [] = []"
| "str_join sep [x] = x"
| "str_join sep (x # y # ys) = x @ sep @ str_join sep (y # ys)"

text \<open>\<open>os.path.join(a, b)\<close> of \<open>posixpath\<close>, for two components.\<close>

definition path_join :: "string \<Rightarrow> string \<Rightarrow> string" where
  "path_join a b =
     (if b \<noteq> [] \<and> hd b = CHR ''/'' then b
      else if a = [] \<or> last a = CHR ''/'' then a @ b
      else a @ ''/'' @ b)"

text \<open>\<open>os.path.basename(p)\<close> and \<open>os.path.dirname(p)\<close> of \<open>posixpath\<close>.\<close>

definition basename :: "string \<Rightarrow> string" where
  "basename p = rev (takeWhile (\<lambda>c. c \<noteq> CHR ''/'') (rev p))"

definition dirname :: "string \<Rightarrow> string" where
  "dirname p =
     (let head = rev (dropWhile (\<lambda>c. c \<noteq> CHR ''/'') (rev p))
      in if head \<noteq> [] \<and> head \<noteq> replicate (length head) CHR ''/''
         then rev (dropWhile (\<lambda>c. c = CHR ''/'') (rev head))
         else head)"

text \<open>
  \<open>s.replace(old, new)\<close>: every occurrence of \<open>old\<close>, found from the left and without
  overlap, becomes \<open>new\<close>. An empty \<open>old\<close> puts \<open>new\<close> before every character and at
  the end.
\<close>

fun str_replace :: "string \<Rightarrow> string \<Rightarrow> string \<Rightarrow> string" where
  "str_replace old new [] = (if old = [] then new else [])"
| "str_replace old new (c # cs) =
     (if old = [] then new @ c # str_replace old new cs
      else if prefix old (c # cs) then new @ str_replace old new (drop (length old) (c # cs))
      else c # str_replace old new cs)"

text \<open>\<open>s.split(os.linesep)\<close> on a POSIX host, where \<open>os.linesep\<close> is the newline.\<close>

fun split_acc :: "string \<Rightarrow> string \<Rightarrow> string list" where
  "split_acc acc [] = [acc]"
| "split_acc acc (c # cs) =
     (if c = nl then acc # split_acc [] cs else split_acc (acc @ [c]) cs)"

definition split_linesep :: "string \<Rightarrow> string list" where
  "split_linesep s = split_acc [] s"

text \<open>
  The characters that \<open>str.isspace\<close> and the pattern \<open>\s\<close> accept, and those that the
  pattern \<open>\w\<close> accepts, among the code points below 256.
\<close>

definition is_space :: "char \<Rightarrow> bool" where
  "is_space c = (let n = (of_char c :: nat) in
     (9 \<le> n \<and> n \<le> 13) \<or> (28 \<le> n \<and> n \<le> 32) \<or> n = 133 \<or> n = 160)"

definition is_word :: "char \<Rightarrow> bool" where
  "is_word c = (let n = (of_char c :: nat) in
     (48 \<le> n \<and> n \<le> 57) \<or> (65 \<le> n \<and> n \<le> 90) \<or> n = 95 \<or> (97 \<le> n \<and> n \<le> 122)
     \<or> n = 170 \<or> n = 178 \<or> n = 179 \<or> n = 181 \<or> n = 185 \<or> n = 186
     \<or> (188 \<le> n \<and> n \<le> 190) \<or> (192 \<le> n \<and> n \<le> 214) \<or> (216 \<le> n \<and> n \<le> 246)
     \<or> (248 \<le> n \<and> n \<le> 255))"

definition strip :: "string \<Rightarrow> string" where
  "strip s = rev (dropWhile is_space (rev (dropWhile is_space s)))"

text \<open>\<open>str(n)\<close> of an integer.\<close>

fun nat_digits :: "nat \<Rightarrow> string" where
  "nat_digits n =
     (if n < 10 then [''0123456789'' ! n]
      else nat_digits (n div 10) @ [''0123456789'' ! (n mod 10)])"

declare nat_digits.simps [simp del]

definition str_int :: "int \<Rightarrow> string" where
  "str_int i = (if i < 0 then ''-'' @ nat_digits (nat (- i)) else nat_digits (nat i))"

section \<open>Regular expressions of the two patterns\<close>

text \<open>
  Both patterns of the scripts are sequences of single characters, character classes
  under \<open>*\<close> or \<open>+\<close>, and one group. The matcher follows the backtracking order of
  Python's \<open>re\<close>: a repetition first takes as many characters as it can and gives them
  back one by one while the rest of the pattern fails.
\<close>

datatype cls = Space | Word | NotNul | Lit char

fun cls_ok :: "cls \<Rightarrow> char \<Rightarrow> bool" where
  "cls_ok Space c = is_space c"
| "cls_ok Word c = is_word c"
| "cls_ok NotNul c = (c \<noteq> CHR 0x00)"
| "cls_ok (Lit a) c = (c = a)"

datatype item = One cls | Star cls | Plus cls | GroupOpen | GroupClose

datatype capture = Unset | Opened string | Closed string

fun push :: "string \<Rightarrow> capture \<Rightarrow> capture" where
  "push s (Opened g) = Opened (g @ s)"
| "push s cap = cap"

fun close_group :: "capture \<Rightarrow> capture" where
  "close_group (Opened g) = Closed g"
| "close_group cap = cap"

text \<open>
  \<open>backtrack k allow_empty taken rest\<close>: \<open>taken\<close> holds, last character first, what the
  repetition has taken; the continuation \<open>k\<close> is tried on it, then on ever shorter takes.
\<close>

primrec backtrack ::
  "(string \<Rightarrow> string \<Rightarrow> 'a option) \<Rightarrow> bool \<Rightarrow> string \<Rightarrow> string \<Rightarrow> 'a option" where
  "backtrack k allow_empty [] rest = (if allow_empty then k [] rest else None)"
| "backtrack k allow_empty (x # taken) rest =
     (case k (rev (x # taken)) rest of
        Some r \<Rightarrow> Some r
      | None \<Rightarrow> backtrack k allow_empty taken (x # rest))"

primrec rmatch :: "item list \<Rightarrow> string \<Rightarrow> capture \<Rightarrow> (capture \<times> string) option" where
  "rmatch [] s cap = Some (cap, s)"
| "rmatch (it # items) s cap =
     (case it of
        One c \<Rightarrow>
          (case s of
             [] \<Rightarrow> None
           | x # xs \<Rightarrow> if cls_ok c x then rmatch items xs (push [x] cap) else None)
      | Star c \<Rightarrow>
          backtrack (\<lambda>taken rest. rmatch items rest (push taken cap)) True
            (rev (takeWhile (cls_ok c) s)) (dropWhile (cls_ok c) s)
      | Plus c \<Rightarrow>
          backtrack (\<lambda>taken rest. rmatch items rest (push taken cap)) False
            (rev (takeWhile (cls_ok c) s)) (dropWhile (cls_ok c) s)
      | GroupOpen \<Rightarrow> rmatch items s (Opened [])
      | GroupClose \<Rightarrow> rmatch items s (close_group cap))"

fun group1 :: "(capture \<times> string) option \<Rightarrow> string option" where
  "group1 (Some (Closed g, rest)) = Some g"
| "group1 r = None"

text \<open>
  \<open>r.match(s)\<close> matches at the start of \<open>s\<close>; \<open>re.search(r, s)\<close> takes the leftmost start
  that matches. Both give \<open>m.group(1)\<close>, or \<open>None\<close> without a match.
\<close>

definition re_match :: "item list \<Rightarrow> string \<Rightarrow> string option" where
  "re_match items s = group1 (rmatch items s Unset)"

fun re_search :: "item list \<Rightarrow> string \<Rightarrow> string option" where
  "re_search items [] = re_match items []"
| "re_search items (c # cs) =
     (case re_match items (c # cs) of
        Some g \<Rightarrow> Some g
      | None \<Rightarrow> re_search items cs)"

definition lits :: "string \<Rightarrow> item list" where
  "lits s = map (\<lambda>c. One (Lit c)) s"

text \<open>The pattern \<^verbatim>\<open>\s-o\s+([^\0]+\.o)\s\<close> of \<open>try_locate_elf_object\<close>.\<close>

definition output_flag_re :: "item list" where
  "output_flag_re =
     [One Space] @ lits ''-o'' @ [Plus Space, GroupOpen, Plus NotNul] @ lits ''.o''
     @ [GroupClose, One Space]"

text \<open>The pattern \<^verbatim>\<open>^#\s*Configuration:\s*(\w+)\<close> of \<open>get_ninja_build_type\<close>.\<close>

definition configuration_re :: "item list" where
  "configuration_re =
     lits ''#'' @ [Star Space] @ lits ''Configuration:''
     @ [Star Space, GroupOpen, Plus Word, GroupClose]"

section \<open>Failures, processes and the machine state\<close>

text \<open>
  A Python exception that nobody catches ends the process with a traceback.
  \<open>die(emsg, ecode)\<close> logs \<open>error: emsg\<close> and raises \<open>SystemExit(ecode)\<close> through
  \<open>quit\<close>; it is kept apart as \<open>Die emsg ecode\<close>.
\<close>

datatype pyexc =
    NameError string
  | KeyError string
  | TypeError
  | IndexError
  | AssertionError string
  | ValueError string
  | FileNotFoundError string
  | ProcessExecutionError int

datatype exn = Die string int | Raise pyexc

text \<open>
  The exit status of the interpreter: 0 after a normal end, the low byte of the code of
  a \<open>SystemExit\<close>, 1 after any other exception that reaches the top.
\<close>

fun exit_status :: "exn + 'a \<Rightarrow> int" where
  "exit_status (Inr x) = 0"
| "exit_status (Inl (Die emsg ecode)) = ecode mod 256"
| "exit_status (Inl (Raise e)) = 1"

text \<open>What a finished external process hands back to plumbum.\<close>

record proc =
  retcode :: int
  stdout :: string
  stderr :: string

text \<open>
  One started process: the variables that \<open>pb.local.env\<close> had added to the environment
  of the interpreter when the process started, and its argument vector.
\<close>

datatype event = Exec "(string \<times> string) list" "string list"

text \<open>
  The machine: the regular files with their content, the processes started so far
  (oldest first), and the variables that \<open>pb.local.env\<close> has added to the environment
  (newest first). That environment belongs to the whole interpreter, not to one call or
  one thread. Directories and the current directory are left out: the scripts build
  their paths from the absolute \<open>ROOT_DIR\<close>.
\<close>

record state =
  files :: "string \<rightharpoonup> string"
  trace :: "event list"
  environ :: "(string \<times> string) list"

text \<open>
  \<open>os.path.isfile(p)\<close>. A file is found under the path as it is written: components
  \<open>.\<close> and \<open>..\<close> and symbolic links are not resolved, so \<open>files\<close> is meant to be keyed by
  the paths the scripts build, which hold none of these unless the database does.
\<close>

definition isfile :: "state \<Rightarrow> string \<Rightarrow> bool" where
  "isfile st p = (files st p \<noteq> None)"

text \<open>
  One element of the compilation database, a JSON object; each of the four keys the
  scripts read may be missing.
\<close>

record entry =
  e_directory :: "string option"
  e_file :: "string option"
  e_arguments :: "string list option"
  e_command :: "string option"

text \<open>
  What the scripts cannot decide themselves: where the checkout lives (\<open>ROOT_DIR\<close>, an
  absolute path taken from \<open>__file__\<close>, so that the paths built from it do not depend
  on the current directory), which command names are found on the search path, what a started process
  returns and does to the files, and the texts that library calls put into messages
  (\<open>json.dumps\<close> of an entry, \<open>str\<close> of a plumbum command, \<open>os.strerror\<close>, the name of
  a signal number if it has one).
\<close>

record world =
  root_dir :: string
  which :: "string \<Rightarrow> bool"
  exec :: "string list \<Rightarrow> (string \<rightharpoonup> string) \<Rightarrow> proc \<times> (string \<rightharpoonup> string)"
  json_pp_obj :: "entry \<Rightarrow> string"
  show_cmd :: "string list \<Rightarrow> string"
  strerror :: "int \<Rightarrow> string"
  signal_name :: "int \<Rightarrow> string option"

text \<open>A computation reads and changes the machine and ends normally or with a failure.\<close>

type_synonym 'a run = "state \<Rightarrow> (exn + 'a) \<times> state"

definition ret :: "'a \<Rightarrow> 'a run" where
  "ret x st = (Inr x, st)"

definition raise :: "pyexc \<Rightarrow> 'a run" where
  "raise e st = (Inl (Raise e), st)"

definition bind_run :: "'a run \<Rightarrow> ('a \<Rightarrow> 'b run) \<Rightarrow> 'b run" where
  "bind_run m k st =
     (case m st of
        (Inl e, st') \<Rightarrow> (Inl e, st')
      | (Inr x, st') \<Rightarrow> k x st')"

text \<open>A \<open>for\<close> loop whose body may fail, and a list comprehension whose element may fail.\<close>

fun for_each :: "('a \<Rightarrow> unit run) \<Rightarrow> 'a list \<Rightarrow> unit run" where
  "for_each body [] = ret ()"
| "for_each body (x # xs) = bind_run (body x) (\<lambda>_. for_each body xs)"

fun map_run :: "('a \<Rightarrow> 'b run) \<Rightarrow> 'a list \<Rightarrow> 'b list run" where
  "map_run f [] = ret []"
| "map_run f (x # xs) =
     bind_run (f x) (\<lambda>y. bind_run (map_run f xs) (\<lambda>ys. ret (y # ys)))"

subsection \<open>plumbum\<close>

text \<open>
  Starting a process records it and lets the world answer. \<open>cmd.run(retcode = r)\<close>
  raises \<open>ProcessExecutionError\<close> when the exit status differs from \<open>r\<close>, and checks
  nothing for \<open>retcode = None\<close>; the default is \<open>retcode = 0\<close>. Calling a command,
  \<open>cmd(args)\<close>, is \<open>run\<close> with the default and gives the standard output;
  \<open>cmd & pb.TEE\<close> is \<open>run\<close> with the default and echoes the output.
\<close>

definition pb_popen :: "world \<Rightarrow> string list \<Rightarrow> state \<Rightarrow> proc \<times> state" where
  "pb_popen w argv st =
     (let (p, fs) = exec w argv (files st)
      in (p, st\<lparr>files := fs, trace := trace st @ [Exec (environ st) argv]\<rparr>))"

definition pb_run :: "world \<Rightarrow> string list \<Rightarrow> int option \<Rightarrow> proc run" where
  "pb_run w argv expected st =
     (let (p, st') = pb_popen w argv st
      in case expected of
           None \<Rightarrow> (Inr p, st')
         | Some r \<Rightarrow>
             if retcode p = r then (Inr p, st')
             else (Inl (Raise (ProcessExecutionError (retcode p))), st'))"

definition pb_call :: "world \<Rightarrow> string list \<Rightarrow> string run" where
  "pb_call w argv = bind_run (pb_run w argv (Some 0)) (\<lambda>p. ret (stdout p))"

text \<open>
  \<open>with pb.local.env(vars): body\<close> adds the variables to the environment of the
  interpreter, runs the body, and takes them away again however the body ends.
\<close>

definition local_env :: "(string \<times> string) list \<Rightarrow> 'a run \<Rightarrow> 'a run" where
  "local_env vars body st =
     (case body (st\<lparr>environ := vars @ environ st\<rparr>) of
        (r, st') \<Rightarrow> (r, st'\<lparr>environ := environ st\<rparr>))"

section \<open>build\_ast\_extractor.py\<close>

definition DEPS_DIR :: "world \<Rightarrow> string" where
  "DEPS_DIR w = path_join (root_dir w) ''dependencies''"

definition CBOR_PREFIX :: "world \<Rightarrow> string" where
  "CBOR_PREFIX w = path_join (DEPS_DIR w) ''tinycbor''"

definition LLVM_SRC :: "world \<Rightarrow> string" where
  "LLVM_SRC w = path_join (root_dir w) ''llvm.src''"

definition LLVM_BLD :: "world \<Rightarrow> string" where
  "LLVM_BLD w = path_join (root_dir w) ''llvm.build''"

definition LLVM_BIN :: "world \<Rightarrow> string" where
  "LLVM_BIN w = path_join (LLVM_BLD w) ''bin''"

definition LLVM_PUBKEY :: string where
  "LLVM_PUBKEY = ''8F0871F202119294''"

definition LLVM_VER :: string where
  "LLVM_VER = ''4.0.1''"

definition LLVM_ARCHIVE_URLS :: "string list" where
  "LLVM_ARCHIVE_URLS =
     [''http://releases.llvm.org/'' @ LLVM_VER @ ''/llvm-4.0.1.src.tar.xz'',
      ''http://releases.llvm.org/'' @ LLVM_VER @ ''/cfe-'' @ LLVM_VER @ ''.src.tar.xz'',
      ''http://releases.llvm.org/'' @ LLVM_VER @ ''/clang-tools-extra-'' @ LLVM_VER @ ''.src.tar.xz'',
      ''http://releases.llvm.org/'' @ LLVM_VER @ ''/clang-tools-extra-'' @ LLVM_VER @ ''.src.tar.xz'']"

definition LLVM_SIGNATURE_URLS :: "string list" where
  "LLVM_SIGNATURE_URLS = map (\<lambda>s. s @ ''.sig'') LLVM_ARCHIVE_URLS"

definition LLVM_ARCHIVE_DIRS :: "string list" where
  "LLVM_ARCHIVE_DIRS = map (\<lambda>s. str_replace ''.tar.xz'' [] (basename s)) LLVM_ARCHIVE_URLS"

definition LLVM_ARCHIVE_FILES :: "world \<Rightarrow> string list" where
  "LLVM_ARCHIVE_FILES w = map (\<lambda>s. path_join (DEPS_DIR w) (basename s)) LLVM_ARCHIVE_URLS"

definition KEYSERVER :: string where
  "KEYSERVER = ''pgpkeys.mit.edu''"

definition CMAKELISTS_COMMANDS :: "world \<Rightarrow> string" where
  "CMAKELISTS_COMMANDS w =
     [nl] @ ''include_directories('' @ CBOR_PREFIX w @ ''/include)'' @ [nl]
     @ ''link_directories('' @ CBOR_PREFIX w @ ''/lib)'' @ [nl]
     @ ''add_subdirectory(ast-extractor)'' @ [nl]"

definition ENOENT :: int where
  "ENOENT = 2"

subsection \<open>die, \_invoke, get\_cmd\_or\_die\<close>

definition die :: "string \<Rightarrow> int \<Rightarrow> 'a run" where
  "die emsg ecode st = (Inl (Die emsg ecode), st)"

text \<open>
  \<open>_invoke\<close> runs the command with the default check of the exit status, on either branch
  of \<open>console_output\<close>, and turns a \<open>ProcessExecutionError\<close> into \<open>die\<close> with the exit
  status of the command as exit code.
\<close>

definition invoke_general :: "world \<Rightarrow> bool \<Rightarrow> string list \<Rightarrow> proc run" where
  "invoke_general w console_output argv st =
     (case pb_run w argv (Some 0) st of
        (Inl (Raise (ProcessExecutionError rc)), st') \<Rightarrow>
          die (''cmd exited with code '' @ str_int rc @ '': '' @ show_cmd w argv) rc st'
      | r \<Rightarrow> r)"

definition invoke :: "world \<Rightarrow> string list \<Rightarrow> proc run" where
  "invoke w argv = invoke_general w True argv"

definition invoke_quietly :: "world \<Rightarrow> string list \<Rightarrow> proc run" where
  "invoke_quietly w argv = invoke_general w False argv"

text \<open>
  \<open>pb.local[cmd]\<close> takes a \<open>cmd\<close> that contains a slash or a backslash as the path of the
  program and looks nothing up; any other \<open>cmd\<close> is searched on the path, and
  \<open>CommandNotFound\<close> is raised when the search finds nothing.
\<close>

definition names_a_path :: "string \<Rightarrow> bool" where
  "names_a_path cmd = (CHR ''/'' \<in> set cmd \<or> CHR 0x5C \<in> set cmd)"

definition get_cmd_or_die :: "world \<Rightarrow> string \<Rightarrow> string run" where
  "get_cmd_or_die w cmd =
     (if names_a_path cmd \<or> which w cmd then ret cmd
      else die (cmd @ '' not in path'') ENOENT)"

subsection \<open>check\_sig\<close>

definition expected_signer :: string where
  "expected_signer = ''Good signature from \"Tom Stellard <tom@stellard.net>\"''"

definition recv_key_argv :: "string \<Rightarrow> string list" where
  "recv_key_argv gpg = [gpg, ''--keyserver'', KEYSERVER, ''--recv-key'', LLVM_PUBKEY]"

definition verify_argv :: "string \<Rightarrow> string \<Rightarrow> string \<Rightarrow> string list" where
  "verify_argv gpg afile asigfile = [gpg, ''--verify'', asigfile, afile]"

definition check_sig :: "world \<Rightarrow> string \<Rightarrow> string \<Rightarrow> unit run" where
  "check_sig w afile asigfile =
     bind_run (get_cmd_or_die w ''gpg'') (\<lambda>gpg.
     bind_run (pb_call w (recv_key_argv gpg)) (\<lambda>_.
     bind_run (pb_run w (verify_argv gpg afile asigfile) None) (\<lambda>p.
       if retcode p \<noteq> 0
       then die (''gpg signature check failed: gpg exit code '' @ str_int (retcode p)) 1
       else if \<not> str_in expected_signer (stderr p)
       then die ''gpg signature check failed: expected signature not found'' 1
       else ret ())))"

text \<open>
  What \<open>gpg --verify\<close> answers inside \<open>check_sig\<close>: it is started on the files as
  the \<open>--recv-key\<close> process has left them.
\<close>

definition verify_outcome :: "world \<Rightarrow> string \<Rightarrow> string \<Rightarrow> state \<Rightarrow> proc" where
  "verify_outcome w afile asigfile st =
     fst (exec w (verify_argv ''gpg'' afile asigfile)
            (snd (exec w (recv_key_argv ''gpg'') (files st))))"

subsection \<open>The download loop of download\_llvm\_sources\<close>

text \<open>
  The loop runs inside \<open>pb.local.cwd(DEPS_DIR)\<close>, so \<open>os.path.isfile\<close> resolves a
  relative path against \<open>DEPS_DIR\<close>. The second test of the body asks for a file named
  by the signature's URL, \<open>asig\<close>, not by \<open>asigfile\<close>.
\<close>

definition isfile_in :: "string \<Rightarrow> state \<Rightarrow> string \<Rightarrow> bool" where
  "isfile_in cwd st p = isfile st (path_join cwd p)"

definition download_one :: "world \<Rightarrow> string \<Rightarrow> string \<times> string \<times> string \<times> string \<Rightarrow> unit run" where
  "download_one w curl a st =
     (case a of (aurl, asig, afile, adir) \<Rightarrow>
        if \<not> isfile_in (DEPS_DIR w) st afile
        then
          bind_run (pb_call w [curl, aurl, ''-o'', afile]) (\<lambda>_.
            (let asigfile = afile @ ''.sig'' in
             bind_run
               (\<lambda>st1. if \<not> isfile_in (DEPS_DIR w) st1 asig
                      then bind_run (pb_call w [curl, asig, ''-o'', asigfile]) (\<lambda>_. ret ()) st1
                      else ret () st1)
               (\<lambda>_. check_sig w afile asigfile))) st
        else ret () st)"

definition zip4 :: "'a list \<Rightarrow> 'b list \<Rightarrow> 'c list \<Rightarrow> 'd list \<Rightarrow> ('a \<times> 'b \<times> 'c \<times> 'd) list" where
  "zip4 as bs cs ds = zip as (zip bs (zip cs ds))"

definition download_loop :: "world \<Rightarrow> string \<Rightarrow> (string \<times> string \<times> string \<times> string) list \<Rightarrow> unit run" where
  "download_loop w curl archives = for_each (download_one w curl) archives"

text \<open>
  \<open>download_llvm_sources\<close> up to the end of its download loop; the unpacking of the
  archives that follows the loop is not part of this development.
\<close>

definition download_llvm_sources :: "world \<Rightarrow> unit run" where
  "download_llvm_sources w =
     bind_run (get_cmd_or_die w ''curl'') (\<lambda>curl.
     bind_run (get_cmd_or_die w ''tar'') (\<lambda>tar.
       download_loop w curl
         (zip4 LLVM_ARCHIVE_URLS LLVM_SIGNATURE_URLS (LLVM_ARCHIVE_FILES w) LLVM_ARCHIVE_DIRS)))"

subsection \<open>get\_ninja\_build\_type and configure\_and\_build\_llvm\<close>

definition generator_signature :: string where
  "generator_signature = ''# CMAKE generated file: DO NOT EDIT!'' @ [nl]"

fun first_configuration :: "string list \<Rightarrow> string option" where
  "first_configuration [] = None"
| "first_configuration (line # lines) =
     (case re_match configuration_re line of
        Some g \<Rightarrow> Some g
      | None \<Rightarrow> first_configuration lines)"

definition get_ninja_build_type :: "string \<Rightarrow> string run" where
  "get_ninja_build_type ninja_build_file st =
     (case files st ninja_build_file of
        None \<Rightarrow> raise (FileNotFoundError ninja_build_file) st
      | Some content \<Rightarrow>
          (case readlines content of
             [] \<Rightarrow> raise IndexError st
           | line0 # rest \<Rightarrow>
               bind_run
                 (if \<not> line0 = generator_signature
                  then die (''unexpected content in ninja.build: '' @ ninja_build_file) 1
                  else ret ())
                 (\<lambda>_. case first_configuration (line0 # rest) of
                        Some g \<Rightarrow> ret g
                      | None \<Rightarrow> die (''missing content in ninja.build: '' @ ninja_build_file) 1)
                 st))"

definition cmake_argv :: "world \<Rightarrow> string \<Rightarrow> string \<Rightarrow> string list" where
  "cmake_argv w cmake build_type =
     [cmake, ''-G'', ''Ninja'', LLVM_SRC w,
      ''-Wno-dev'',
      ''-DCMAKE_C_COMPILER=clang'',
      ''-DCMAKE_CXX_COMPILER=clang++'',
      ''-DLLVM_BUILD_TESTS=ON'',
      ''-DCMAKE_BUILD_TYPE='' @ build_type,
      ''-DLLVM_ENABLE_ASSERTIONS=1'',
      ''-DLLVM_TARGETS_TO_BUILD=X86'']"

definition build_type_of :: "bool \<Rightarrow> string" where
  "build_type_of debug = (if debug then ''Debug'' else ''Release'')"

definition ninja_build_file :: "world \<Rightarrow> string" where
  "ninja_build_file w = path_join (LLVM_BLD w) ''build.ninja''"

definition configure_and_build_llvm :: "world \<Rightarrow> bool \<Rightarrow> unit run" where
  "configure_and_build_llvm w debug =
     bind_run (get_cmd_or_die w ''ninja'') (\<lambda>ninja.
       (let build_type = build_type_of debug in
        bind_run
          (\<lambda>st. if isfile st (ninja_build_file w)
                then bind_run (get_ninja_build_type (ninja_build_file w))
                       (\<lambda>prev_build_type. ret (prev_build_type \<noteq> build_type)) st
                else ret True st)
          (\<lambda>run_cmake.
             bind_run
               (if run_cmake
                then bind_run (get_cmd_or_die w ''cmake'') (\<lambda>cmake.
                       bind_run (invoke w (cmake_argv w cmake build_type)) (\<lambda>_. ret ()))
                else ret ())
               (\<lambda>_. bind_run (invoke w [ninja, ''ast-extractor'']) (\<lambda>_. ret ())))))"

text \<open>
  The marker as the specification words it, apart from the pattern of the code: a line
  \<open># Configuration: <word>\<close> records the flavor \<open><word>\<close>. The line begins with \<open>#\<close>,
  white space may stand or be missing before and after \<open>Configuration:\<close>, and the word
  is the longest run of word characters that follows. A build description records the
  flavor of the first of its lines that is such a marker.
\<close>

definition marker_flavor :: "string \<Rightarrow> string option" where
  "marker_flavor line =
     (case line of
        [] \<Rightarrow> None
      | c # after_hash \<Rightarrow>
          if c \<noteq> CHR ''#'' then None
          else (let label = dropWhile is_space after_hash in
                if \<not> prefix ''Configuration:'' label then None
                else (let word = takeWhile is_word
                                   (dropWhile is_space (drop (length ''Configuration:'') label))
                      in if word = [] then None else Some word)))"

fun first_marker :: "string list \<Rightarrow> string option" where
  "first_marker [] = None"
| "first_marker (line # lines) =
     (case marker_flavor line of
        Some flavor \<Rightarrow> Some flavor
      | None \<Rightarrow> first_marker lines)"

definition recorded_flavor :: "string \<Rightarrow> string option" where
  "recorded_flavor content = first_marker (readlines content)"

text \<open>The processes a run has started, and those among them that are \<open>cmake\<close>.\<close>

definition started :: "state \<Rightarrow> state \<Rightarrow> event list" where
  "started st st' = drop (length (trace st)) (trace st')"

fun is_cmake :: "event \<Rightarrow> bool" where
  "is_cmake (Exec env (cmd # args)) = (cmd = ''cmake'')"
| "is_cmake (Exec env []) = False"

subsection \<open>update\_cmakelists\<close>

definition indicator :: string where
  "indicator = ''add_subdirectory(ast-extractor)''"

definition update_cmakelists :: "world \<Rightarrow> string \<Rightarrow> unit run" where
  "update_cmakelists w filepath st =
     (case files st filepath of
        None \<Rightarrow> die (''not found: '' @ filepath) ENOENT st
      | Some content \<Rightarrow>
          (let cmakelists = readlines content;
               add_commands = (\<not> list_ex (str_in indicator) cmakelists)
           in if add_commands
              then (Inr (), st\<lparr>files := (files st)(filepath \<mapsto> content @ CMAKELISTS_COMMANDS w)\<rparr>)
              else (Inr (), st)))"

section \<open>transpile.py\<close>

subsection \<open>try\_locate\_elf\_object\<close>

definition malformed_entry :: "world \<Rightarrow> entry \<Rightarrow> string" where
  "malformed_entry w cmd =
     ''malformed entry in compile_commands.json:'' @ [nl] @ json_pp_obj w cmd"

definition try_locate_elf_object :: "world \<Rightarrow> entry \<Rightarrow> string option run" where
  "try_locate_elf_object w cmd st =
     (case (case e_arguments cmd of
              Some arguments \<Rightarrow> Some (str_join '' '' arguments)
            | None \<Rightarrow> e_command cmd) of
        None \<Rightarrow> die (malformed_entry w cmd) 1 st
      | Some command \<Rightarrow>
          (case e_directory cmd of
             None \<Rightarrow> die (malformed_entry w cmd) 1 st
           | Some dir \<Rightarrow>
               bind_run
                 (case re_search output_flag_re command of
                    Some outfile \<Rightarrow> ret (path_join dir outfile)
                  | None \<Rightarrow>
                      (case e_file cmd of
                         None \<Rightarrow> raise (KeyError ''file'')
                       | Some file \<Rightarrow> ret (str_replace ''.c'' ''.o'' (path_join dir file))))
                 (\<lambda>outpath st'. if isfile st' outpath then ret (Some outpath) st' else ret None st')
                 st))"

subsection \<open>ensure\_code\_compiled\_with\_clang\<close>

text \<open>The comprehension \<^verbatim>\<open>[c for c in cc_db if c['file'].endswith(".c")]\<close>.\<close>

fun c_commands :: "entry list \<Rightarrow> pyexc + entry list" where
  "c_commands [] = Inr []"
| "c_commands (c # cs) =
     (case e_file c of
        None \<Rightarrow> Inl (KeyError ''file'')
      | Some file \<Rightarrow>
          (case c_commands cs of
             Inl e \<Rightarrow> Inl e
           | Inr rest \<Rightarrow> Inr (if suffix ''.c'' file then c # rest else rest)))"

text \<open>
  The comprehension \<^verbatim>\<open>[(f, readelf('-p', '.comment', f)) for f in obj_files if f]\<close>;
  \<open>None\<close> and the empty string are false.
\<close>

fun comment_sections :: "world \<Rightarrow> string \<Rightarrow> string option list \<Rightarrow> (string \<times> string) list run" where
  "comment_sections w readelf [] = ret []"
| "comment_sections w readelf (None # fs) = comment_sections w readelf fs"
| "comment_sections w readelf (Some f # fs) =
     (if f = [] then comment_sections w readelf fs
      else bind_run (pb_call w [readelf, ''-p'', ''.comment'', f]) (\<lambda>c.
           bind_run (comment_sections w readelf fs) (\<lambda>rest. ret ((f, c) # rest))))"

definition ensure_code_compiled_with_clang :: "world \<Rightarrow> entry list \<Rightarrow> unit run" where
  "ensure_code_compiled_with_clang w cc_db =
     (case c_commands cc_db of
        Inl e \<Rightarrow> raise e
      | Inr c_cc_db \<Rightarrow>
          if length c_cc_db = 0 then die ''didn't find any commands compling C files'' 1
          else
            bind_run (map_run (try_locate_elf_object w) c_cc_db) (\<lambda>obj_files.
            bind_run (get_cmd_or_die w ''readelf'') (\<lambda>readelf.
            bind_run (comment_sections w readelf obj_files) (\<lambda>comment_sections.
              (let non_clang_files = filter (\<lambda>(f, c). \<not> str_in ''clang'' c) comment_sections
               in if length non_clang_files \<noteq> 0
                  then die (''some ELF objects were not compiled with clang:'' @ [nl]
                            @ str_join [nl] (map fst comment_sections)) 1
                  else ret ())))))"

subsection \<open>get\_system\_include\_dirs and extract\_ast\_from (build\_ast\_extractor.py)\<close>

definition get_system_include_dirs :: "world \<Rightarrow> string list run" where
  "get_system_include_dirs w =
     bind_run (get_cmd_or_die w ''clang'') (\<lambda>cc.
     bind_run (pb_run w [cc, ''-E'', ''-Wp,-v'', ''-''] (Some 0)) (\<lambda>p.
       (let dirs = split_linesep (stderr p)
        in ret (map strip (filter (\<lambda>l. length l \<noteq> 0 \<and> hd l = CHR '' '') dirs)))))"

text \<open>The fire sign of the message of \<open>extract_ast_from\<close>, in UTF-8.\<close>

definition fire :: string where
  "fire = [CHR 0xF0, CHR 0x9F, CHR 0x94, CHR 0xA5]"

definition extract_ast_from ::
  "world \<Rightarrow> string \<Rightarrow> string \<Rightarrow> string list \<Rightarrow> entry \<Rightarrow> string run" where
  "extract_ast_from w ast_extr cc_db_path sys_incl_dirs kwargs st =
     (case (e_directory kwargs, e_file kwargs) of
        (Some dir, Some filename) \<Rightarrow>
          (let filepath = path_join dir filename in
           if \<not> isfile st filepath then die (''missing file '' @ filepath) 1 st
           else
             (let cc_db_dir = dirname cc_db_path;
                  args = [''-p'', cc_db_dir, filepath]
                         @ map (\<lambda>i. ''-extra-arg=-I'' @ i) sys_incl_dirs
              in case pb_run w (ast_extr # args) (Some 0) st of
                   (Inl (Raise (ProcessExecutionError rc)), st') \<Rightarrow>
                     (if rc \<ge> 0
                      then die (''sanity testing failed '' @ fire @ '' : '' @ strerror w rc) rc st'
                      else (case signal_name w (- rc) of
                              None \<Rightarrow> raise (ValueError (str_int (- rc))) st'
                            | Some name \<Rightarrow>
                                die (''sanity testing failed '' @ fire @ '' : ''
                                     @ ''Received signal: '' @ name) rc st'))
                 | (Inl e, st') \<Rightarrow> (Inl e, st')
                 | (Inr p, st') \<Rightarrow>
                     (let cbor_outfile = filepath @ ''.cbor'' in
                      if isfile st' cbor_outfile then (Inr cbor_outfile, st')
                      else raise (AssertionError (''missing: '' @ cbor_outfile)) st')))
      | _ \<Rightarrow> die (''couldn't parse '' @ cc_db_path) 1 st)"

subsection \<open>transpile\_files\<close>

text \<open>The parsed command line: \<open>commands_json\<close> is the array that \<open>json.load\<close> returns.\<close>

record args =
  commands_json_name :: string
  commands_json :: "entry list"
  import_only :: bool
  filter_arg :: string
  jobs :: int

text \<open>
  The names that are bound when the filter of \<open>transpile_files\<close> is evaluated: the
  locals of \<open>transpile_files\<close>, the names of the module (its imports, everything public
  of \<open>build_ast_extractor\<close> through the star import, its own functions) and the
  builtins. Only the variable of the comprehension is bound to an entry.
\<close>

definition transpile_files_locals :: "string list" where
  "transpile_files_locals =
     [''args'', ''ast_extr'', ''ast_impo'', ''cc_db'', ''include_dirs'', ''transpile_single'']"

definition module_names :: "string list" where
  "module_names =
     [''os'', ''re'', ''sys'', ''json'', ''cbor'', ''errno'', ''shutil'', ''signal'',
      ''logging'', ''argparse'', ''platform'', ''multiprocessing'', ''List'', ''Union'',
      ''ThreadPoolExecutor'', ''pb'', ''ROOT_DIR'', ''DEPS_DIR'', ''CBOR_URL'',
      ''CBOR_ARCHIVE'', ''CBOR_SRC'', ''CBOR_PREFIX'', ''BEAR_URL'', ''BEAR_ARCHIVE'',
      ''BEAR_SRC'', ''BEAR_PREFIX'', ''BEAR_BIN'', ''LLVM_SRC'', ''LLVM_BLD'',
      ''LLVM_BIN'', ''LLVM_PUBKEY'', ''LLVM_VER'', ''LLVM_ARCHIVE_URLS'',
      ''LLVM_SIGNATURE_URLS'', ''LLVM_ARCHIVE_FILES'', ''LLVM_ARCHIVE_DIRS'',
      ''KEYSERVER'', ''MIN_PLUMBUM_VERSION'', ''CMAKELISTS_COMMANDS'', ''on_mac'',
      ''on_ubuntu'', ''die'', ''invoke'', ''invoke_quietly'', ''get_cmd_or_die'',
      ''check_sig'', ''download_llvm_sources'', ''get_ninja_build_type'',
      ''configure_and_build_llvm'', ''setup_logging'', ''ensure_dir'',
      ''update_cmakelists'', ''update_cbor_prefix'', ''build_a_bear'',
      ''install_tinycbor'', ''integrate_ast_extractor'', ''get_system_include_dirs'',
      ''extract_ast_from'', ''test_ast_extractor'', ''binary_in_path'', ''json_pp_obj'',
      ''try_locate_elf_object'', ''ensure_code_compiled_with_clang'',
      ''transpile_files'', ''parse_args'', ''main'', ''__name__'', ''__doc__'',
      ''__package__'', ''__loader__'', ''__spec__'', ''__file__'', ''__cached__'',
      ''__builtins__'']"

definition builtin_names :: "string list" where
  "builtin_names =
     [''ArithmeticError'', ''AssertionError'', ''AttributeError'', ''BaseException'',
      ''BlockingIOError'', ''BrokenPipeError'', ''BufferError'', ''BytesWarning'',
      ''ChildProcessError'', ''ConnectionAbortedError'', ''ConnectionError'',
      ''ConnectionRefusedError'', ''ConnectionResetError'', ''DeprecationWarning'',
      ''EOFError'', ''Ellipsis'', ''EnvironmentError'', ''Exception'', ''False'',
      ''FileExistsError'', ''FileNotFoundError'', ''FloatingPointError'',
      ''FutureWarning'', ''GeneratorExit'', ''IOError'', ''ImportError'',
      ''ImportWarning'', ''IndentationError'', ''IndexError'', ''InterruptedError'',
      ''IsADirectoryError'', ''KeyError'', ''KeyboardInterrupt'', ''LookupError'',
      ''MemoryError'', ''ModuleNotFoundError'', ''NameError'', ''None'',
      ''NotADirectoryError'', ''NotImplemented'', ''NotImplementedError'', ''OSError'',
      ''OverflowError'', ''PendingDeprecationWarning'', ''PermissionError'',
      ''ProcessLookupError'', ''RecursionError'', ''ReferenceError'',
      ''ResourceWarning'', ''RuntimeError'', ''RuntimeWarning'', ''StopAsyncIteration'',
      ''StopIteration'', ''SyntaxError'', ''SyntaxWarning'', ''SystemError'',
      ''SystemExit'', ''TabError'', ''TimeoutError'', ''True'', ''TypeError'',
      ''UnboundLocalError'', ''UnicodeDecodeError'', ''UnicodeEncodeError'',
      ''UnicodeError'', ''UnicodeTranslateError'', ''UnicodeWarning'', ''UserWarning'',
      ''ValueError'', ''Warning'', ''ZeroDivisionError'', ''abs'', ''all'', ''any'',
      ''ascii'', ''bin'', ''bool'', ''bytearray'', ''bytes'', ''callable'', ''chr'',
      ''classmethod'', ''compile'', ''complex'', ''copyright'', ''credits'', ''delattr'',
      ''dict'', ''dir'', ''divmod'', ''enumerate'', ''eval'', ''exec'', ''exit'',
      ''filter'', ''float'', ''format'', ''frozenset'', ''getattr'', ''globals'',
      ''hasattr'', ''hash'', ''help'', ''hex'', ''id'', ''input'', ''int'',
      ''isinstance'', ''issubclass'', ''iter'', ''len'', ''license'', ''list'',
      ''locals'', ''map'', ''max'', ''memoryview'', ''min'', ''next'', ''object'',
      ''oct'', ''open'', ''ord'', ''pow'', ''print'', ''property'', ''quit'', ''range'',
      ''repr'', ''reversed'', ''round'', ''set'', ''setattr'', ''slice'', ''sorted'',
      ''staticmethod'', ''str'', ''sum'', ''super'', ''tuple'', ''type'', ''vars'',
      ''zip'']"

datatype pyval = VEntry entry | VOther

definition lookup_name :: "entry \<Rightarrow> string \<Rightarrow> pyexc + pyval" where
  "lookup_name c name =
     (if name = ''c'' then Inr (VEntry c)
      else if name \<in> set transpile_files_locals \<or> name \<in> set module_names
              \<or> name \<in> set builtin_names
      then Inr VOther
      else Inl (NameError name))"

text \<open>The condition \<^verbatim>\<open>args.filter in f['file']\<close> for one element \<open>c\<close>.\<close>

definition filter_condition :: "string \<Rightarrow> entry \<Rightarrow> pyexc + bool" where
  "filter_condition flt c =
     (case lookup_name c ''f'' of
        Inl e \<Rightarrow> Inl e
      | Inr (VEntry d) \<Rightarrow>
          (case e_file d of
             None \<Rightarrow> Inl (KeyError ''file'')
           | Some file \<Rightarrow> Inr (str_in flt file))
      | Inr VOther \<Rightarrow> Inl TypeError)"

text \<open>The comprehension \<^verbatim>\<open>[c for c in cc_db if args.filter in f['file']]\<close>.\<close>

fun filter_db :: "string \<Rightarrow> entry list \<Rightarrow> pyexc + entry list" where
  "filter_db flt [] = Inr []"
| "filter_db flt (c # cs) =
     (case filter_condition flt c of
        Inl e \<Rightarrow> Inl e
      | Inr keep \<Rightarrow>
          (case filter_db flt cs of
             Inl e \<Rightarrow> Inl e
           | Inr rest \<Rightarrow> Inr (if keep then c # rest else rest)))"

text \<open>The first statement of \<open>transpile_single\<close>: where the artifact of the entry is.\<close>

definition cbor_file_of ::
  "world \<Rightarrow> args \<Rightarrow> string \<Rightarrow> string list \<Rightarrow> entry \<Rightarrow> string run" where
  "cbor_file_of w a ast_extr include_dirs cmd =
     (if import_only a
      then (case e_directory cmd of
              None \<Rightarrow> raise (KeyError ''directory'')
            | Some dir \<Rightarrow>
                (case e_file cmd of
                   None \<Rightarrow> raise (KeyError ''file'')
                 | Some file \<Rightarrow> ret (path_join dir (file @ ''.cbor''))))
      else extract_ast_from w ast_extr (commands_json_name a) include_dirs cmd)"

definition transpile_single ::
  "world \<Rightarrow> args \<Rightarrow> string \<Rightarrow> string \<Rightarrow> string list \<Rightarrow> entry \<Rightarrow> unit run" where
  "transpile_single w a ast_extr ast_impo include_dirs cmd =
     bind_run (cbor_file_of w a ast_extr include_dirs cmd) (\<lambda>cbor_file st.
       if \<not> isfile st cbor_file then raise (AssertionError (''missing: '' @ cbor_file)) st
       else local_env [(''RUST_BACKTRACE'', ''1'')]
              (bind_run (invoke_quietly w [ast_impo, cbor_file]) (\<lambda>_. ret ())) st)"

text \<open>
  \<open>executor.submit(transpile_single, cmd)\<close> hands the job to a worker thread. Whatever
  the job raises, \<open>SystemExit\<close> included, is stored in the future that \<open>submit\<close> returns;
  \<open>transpile_files\<close> drops that future, and leaving the \<open>with\<close> block only waits for the
  workers. The jobs are run here one after the other in the order of submission, which
  is one of the schedules of the pool; what the main thread gets back from them is the
  same under every schedule, namely nothing. In this schedule no process of another job
  starts while a job is inside its \<open>pb.local.env\<close> block; under the other schedules of
  a pool that happens, and such a process finds the variable in its environment too. \<open>ThreadPoolExecutor\<close> refuses a number of
  workers that is not positive.
\<close>

fun submit_all :: "('a \<Rightarrow> unit run) \<Rightarrow> 'a list \<Rightarrow> unit run" where
  "submit_all job [] st = (Inr (), st)"
| "submit_all job (cmd # cmds) st = submit_all job cmds (snd (job cmd st))"

definition thread_pool :: "int \<Rightarrow> ('a \<Rightarrow> unit run) \<Rightarrow> 'a list \<Rightarrow> unit run" where
  "thread_pool max_workers job cmds =
     (if max_workers \<le> 0 then raise (ValueError ''max_workers must be greater than 0'')
      else submit_all job cmds)"

definition transpile_files :: "world \<Rightarrow> args \<Rightarrow> unit run" where
  "transpile_files w a =
     bind_run (get_cmd_or_die w (path_join (LLVM_BIN w) ''ast-extractor'')) (\<lambda>ast_extr.
     bind_run (get_cmd_or_die w
                (path_join (root_dir w) ''ast-importer/target/debug/ast-importer'')) (\<lambda>ast_impo.
     bind_run
       (if filter_arg a \<noteq> []
        then (case filter_db (filter_arg a) (commands_json a) of
                Inl e \<Rightarrow> raise e
              | Inr cc_db \<Rightarrow> ret cc_db)
        else ret (commands_json a)) (\<lambda>cc_db.
     bind_run (ensure_code_compiled_with_clang w cc_db) (\<lambda>_.
     bind_run (get_system_include_dirs w) (\<lambda>include_dirs.
       if jobs a = 1
       then for_each (transpile_single w a ast_extr ast_impo include_dirs) cc_db
       else thread_pool (jobs a) (transpile_single w a ast_extr ast_impo include_dirs) cc_db)))))"

text \<open>\<open>main\<close> after \<open>parse_args\<close>; its last statement logs the success.\<close>

definition main :: "world \<Rightarrow> args \<Rightarrow> unit run" where
  "main w a = bind_run (transpile_files w a) (\<lambda>_. ret ())"

text \<open>The import processes among the started ones.\<close>

fun is_import :: "event \<Rightarrow> bool" where
  "is_import (Exec env (cmd # args)) = (basename cmd = ''ast-importer'')"
| "is_import (Exec env []) = False"

section \<open>Concrete machines for the examples\<close>

text \<open>
  A world in which every command is found and every process exits with status 0, prints
  nothing and leaves the files alone.
\<close>

definition quiet_proc :: proc where
  "quiet_proc = \<lparr>retcode = 0, stdout = [], stderr = []\<rparr>"

definition plain_world :: world where
  "plain_world =
     \<lparr>root_dir = ''/c2rust'',
      which = (\<lambda>cmd. True),
      exec = (\<lambda>argv fs. (quiet_proc, fs)),
      json_pp_obj = (\<lambda>cmd. []),
      show_cmd = str_join '' '',
      strerror = (\<lambda>n. []),
      signal_name = (\<lambda>n. None)\<rparr>"

definition cmakelists_path :: string where
  "cmakelists_path = ''/c2rust/llvm.src/tools/clang/tools/extra/CMakeLists.txt''"

definition unpatched_state :: state where
  "unpatched_state =
     \<lparr>files = [cmakelists_path \<mapsto> ''add_subdirectory(clang-query)''], trace = [], environ = []\<rparr>"

text \<open>
  A world like \<open>plain_world\<close> in which every process prints \<open>gpg\<close>'s line about the
  expected signer on its standard error.
\<close>

definition signed_stderr :: string where
  "signed_stderr = ''gpg: '' @ expected_signer @ [nl]"

definition signed_world :: world where
  "signed_world =
     plain_world\<lparr>exec := (\<lambda>argv fs.
       (\<lparr>retcode = 0, stdout = [], stderr = signed_stderr\<rparr>, fs))\<rparr>"

definition empty_state :: state where
  "empty_state = \<lparr>files = Map.empty, trace = [], environ = []\<rparr>"

text \<open>Build descriptions as \<open>cmake\<close> writes them, recording \<open>Release\<close>, and an empty one.\<close>

definition release_build_ninja :: string where
  "release_build_ninja =
     ''# CMAKE generated file: DO NOT EDIT!'' @ [nl]
     @ ''# Generated by \"Ninja\" Generator, CMake Version 3.5'' @ [nl]
     @ [nl]
     @ ''# Project: LLVM'' @ [nl]
     @ ''# Configuration: Release'' @ [nl]"

definition release_state :: state where
  "release_state =
     \<lparr>files = [''/c2rust/llvm.build/build.ninja'' \<mapsto> release_build_ninja], trace = [], environ = []\<rparr>"

definition debug_build_ninja :: string where
  "debug_build_ninja =
     ''# CMAKE generated file: DO NOT EDIT!'' @ [nl]
     @ ''# Generated by \"Ninja\" Generator, CMake Version 3.5'' @ [nl]
     @ [nl]
     @ ''# Project: LLVM'' @ [nl]
     @ ''# Configuration: Debug'' @ [nl]"

definition debug_state :: state where
  "debug_state =
     \<lparr>files = [''/c2rust/llvm.build/build.ninja'' \<mapsto> debug_build_ninja],
      trace = [], environ = []\<rparr>"

text \<open>A world like \<open>plain_world\<close> in which \<open>cmake\<close> is not installed.\<close>

definition no_cmake_world :: world where
  "no_cmake_world = plain_world\<lparr>which := (\<lambda>cmd. cmd \<noteq> ''cmake'')\<rparr>"

definition empty_ninja_state :: state where
  "empty_ninja_state = \<lparr>files = [''/c2rust/llvm.build/build.ninja'' \<mapsto> []], trace = [], environ = []\<rparr>"

text \<open>A cache that already holds the four archives of \<open>LLVM_ARCHIVE_FILES\<close>.\<close>

definition cached_state :: state where
  "cached_state =
     \<lparr>files = [''/c2rust/dependencies/llvm-4.0.1.src.tar.xz'' \<mapsto> ''xz'',
               ''/c2rust/dependencies/cfe-4.0.1.src.tar.xz'' \<mapsto> ''xz'',
               ''/c2rust/dependencies/clang-tools-extra-4.0.1.src.tar.xz'' \<mapsto> ''xz''],
      trace = [], environ = []\<rparr>"

text \<open>
  A project \<open>/proj\<close> of three sources \<open>a.c\<close>, \<open>b.c\<close>, \<open>c.c\<close> with their objects. In its
  world \<open>readelf\<close> prints a \<open>GCC\<close> comment for the objects of \<open>gcc_objects\<close> and a \<open>clang\<close>
  comment for the others, the extractor fails on the sources of \<open>broken_sources\<close> and
  writes the artifact of every other source, and the importer exits with
  \<open>importer_status\<close>.
\<close>

definition clang_comment :: string where
  "clang_comment = ''clang version 4.0.1 (tags/RELEASE_401/final)''"

definition gcc_comment :: string where
  "gcc_comment = ''GCC: (Ubuntu 5.4.0-6ubuntu1) 5.4.0''"

definition project_exec ::
  "string list \<Rightarrow> string list \<Rightarrow> int \<Rightarrow> string list \<Rightarrow> (string \<rightharpoonup> string)
   \<Rightarrow> proc \<times> (string \<rightharpoonup> string)" where
  "project_exec gcc_objects broken_sources importer_status argv fs =
     (case argv of
        [] \<Rightarrow> (quiet_proc, fs)
      | cmd # rest \<Rightarrow>
          if basename cmd = ''readelf''
          then (\<lparr>retcode = 0,
                 stdout = (if last rest \<in> set gcc_objects then gcc_comment else clang_comment),
                 stderr = []\<rparr>, fs)
          else if basename cmd = ''ast-importer''
          then (\<lparr>retcode = importer_status, stdout = [], stderr = []\<rparr>, fs)
          else if basename cmd = ''ast-extractor''
          then (case rest of
                  p # cc_db_dir # filepath # extra \<Rightarrow>
                    if filepath \<in> set broken_sources
                    then (\<lparr>retcode = 1, stdout = [], stderr = ''error: unknown type name''\<rparr>, fs)
                    else (quiet_proc, fs(filepath @ ''.cbor'' \<mapsto> []))
                | _ \<Rightarrow> (quiet_proc, fs))
          else (quiet_proc, fs))"

definition project_world :: "string list \<Rightarrow> string list \<Rightarrow> int \<Rightarrow> world" where
  "project_world gcc_objects broken_sources importer_status =
     plain_world\<lparr>exec := project_exec gcc_objects broken_sources importer_status\<rparr>"

definition source_entry :: "string \<Rightarrow> entry" where
  "source_entry name =
     \<lparr>e_directory = Some ''/proj'',
      e_file = Some (name @ ''.c''),
      e_arguments = Some [''clang'', ''-c'', name @ ''.c'', ''-o'', name @ ''.o''],
      e_command = None\<rparr>"

definition project_state :: state where
  "project_state =
     \<lparr>files = [''/proj/a.c'' \<mapsto> [], ''/proj/b.c'' \<mapsto> [], ''/proj/c.c'' \<mapsto> [],
               ''/proj/a.o'' \<mapsto> [], ''/proj/b.o'' \<mapsto> [], ''/proj/c.o'' \<mapsto> []],
      trace = [], environ = []\<rparr>"

definition project_args :: "bool \<Rightarrow> string \<Rightarrow> int \<Rightarrow> args" where
  "project_args only_import flt n =
     \<lparr>commands_json_name = ''/proj/compile_commands.json'',
      commands_json = [source_entry ''a'', source_entry ''b'', source_entry ''c''],
      import_only = only_import,
      filter_arg = flt,
      jobs = n\<rparr>"

text \<open>One source whose object is written out of tree, with \<open>-o\<close> last and with \<open>-o\<close> first.\<close>

definition flag_last_entry :: entry where
  "flag_last_entry =
     \<lparr>e_directory = Some ''/proj'',
      e_file = Some ''foo.c'',
      e_arguments = Some [''clang'', ''-c'', ''foo.c'', ''-o'', ''build/out.o''],
      e_command = None\<rparr>"

definition flag_first_entry :: entry where
  "flag_first_entry =
     \<lparr>e_directory = Some ''/proj'',
      e_file = Some ''foo.c'',
      e_arguments = Some [''clang'', ''-o'', ''build/out.o'', ''-c'', ''foo.c''],
      e_command = None\<rparr>"

definition out_of_tree_state :: state where
  "out_of_tree_state = \<lparr>files = [''/proj/build/out.o'' \<mapsto> []], trace = [], environ = []\<rparr>"

text \<open>A checkout below a directory whose name contains \<open>.c\<close>, built in place.\<close>

definition cache_entry :: entry where
  "cache_entry =
     \<lparr>e_directory = Some ''/home/dev/.cache/proj'',
      e_file = Some ''foo.c'',
      e_arguments = None,
      e_command = Some ''clang -c foo.c''\<rparr>"

definition cache_state :: state where
  "cache_state = \<lparr>files = [''/home/dev/.cache/proj/foo.o'' \<mapsto> []], trace = [], environ = []\<rparr>"

text \<open>The project with the artifacts of an earlier extraction in place.\<close>

definition extracted_state :: state where
  "extracted_state =
     \<lparr>files = [''/proj/a.c'' \<mapsto> [], ''/proj/b.c'' \<mapsto> [], ''/proj/c.c'' \<mapsto> [],
               ''/proj/a.o'' \<mapsto> [], ''/proj/b.o'' \<mapsto> [], ''/proj/c.o'' \<mapsto> [],
               ''/proj/a.c.cbor'' \<mapsto> [], ''/proj/b.c.cbor'' \<mapsto> [], ''/proj/c.c.cbor'' \<mapsto> []],
      trace = [], environ = []\<rparr>"

section \<open>Properties\<close>

subsection \<open>Lines of a text\<close>

lemma lines_acc_snoc_nl:
  "nl \<notin> set ys \<Longrightarrow> lines_acc acc (ys @ [nl]) = [acc @ ys @ [nl]]"
  by (induction ys arbitrary: acc) auto

lemma lines_acc_append_nl:
  "lines_acc acc (xs @ nl # rest) = lines_acc acc (xs @ [nl]) @ lines_acc [] rest"
  by (induction xs arbitrary: acc) auto

lemma concat_lines_acc: "concat (lines_acc acc s) = acc @ s"
  by (induction s arbitrary: acc) auto

lemma in_lines_acc_sublist: "l \<in> set (lines_acc acc s) \<Longrightarrow> sublist l (acc @ s)"
proof (induction s arbitrary: acc)
  case Nil
  then show ?case by (auto split: if_splits)
next
  case (Cons c cs)
  show ?case
  proof (cases "c = nl")
    case True
    with Cons.prems have "l = acc @ [c] \<or> l \<in> set (lines_acc [] cs)" by simp
    then show ?thesis
    proof
      assume "l = acc @ [c]"
      then have "acc @ c # cs = l @ cs" by simp
      then show ?thesis by (metis sublist_append_rightI)
    next
      assume "l \<in> set (lines_acc [] cs)"
      then have "sublist l cs" using Cons.IH [of "[]"] by simp
      then obtain ps ss where "cs = ps @ l @ ss" by (auto simp: sublist_def)
      then have "acc @ c # cs = (acc @ c # ps) @ l @ ss" by simp
      then show ?thesis unfolding sublist_def by blast
    qed
  next
    case False
    with Cons.prems have "l \<in> set (lines_acc (acc @ [c]) cs)" by simp
    then have "sublist l ((acc @ [c]) @ cs)" by (rule Cons.IH)
    then show ?thesis by simp
  qed
qed

lemma sublist_split_nl:
  assumes "nl \<notin> set n" "sublist n (a @ nl # b)"
  shows "sublist n a \<or> sublist n b"
proof -
  from assms(2) obtain ps ss where e: "a @ nl # b = ps @ n @ ss" by (auto simp: sublist_def)
  then consider us where "a = ps @ us" "us @ nl # b = n @ ss"
    | us where "a @ us = ps" "nl # b = us @ n @ ss"
    by (auto simp: append_eq_append_conv2)
  then show ?thesis
  proof cases
    case 1
    from 1(2) consider vs where "us = n @ vs" | vs where "us @ vs = n" "nl # b = vs @ ss"
      by (auto simp: append_eq_append_conv2)
    then show ?thesis
    proof cases
      case 1
      with \<open>a = ps @ us\<close> show ?thesis by (auto simp: sublist_def)
    next
      case 2
      with assms(1) have "vs = []" by (cases vs) auto
      with 2 \<open>a = ps @ us\<close> have "a = ps @ n" by simp
      then show ?thesis by (metis sublist_append_leftI)
    qed
  next
    case 2
    show ?thesis
    proof (cases us)
      case Nil
      with 2 assms(1) have "n = []" by (cases n) auto
      then show ?thesis by simp
    next
      case (Cons u us')
      with 2 have "b = us' @ n @ ss" by simp
      then show ?thesis by (auto simp: sublist_def)
    qed
  qed
qed

lemma sublist_some_line:
  assumes "nl \<notin> set n" "n \<noteq> []"
  shows "sublist n (acc @ s) \<Longrightarrow> \<exists>l \<in> set (lines_acc acc s). sublist n l"
proof (induction s arbitrary: acc)
  case Nil
  with assms(2) have "acc \<noteq> []" by auto
  with Nil show ?case by simp
next
  case (Cons c cs)
  show ?case
  proof (cases "c = nl")
    case True
    with Cons.prems have "sublist n acc \<or> sublist n cs"
      using sublist_split_nl [OF assms(1)] by simp
    then show ?thesis
    proof
      assume "sublist n acc"
      then have "sublist n (acc @ [c])" by (metis sublist_order.order_trans sublist_append_rightI)
      with True show ?thesis by simp
    next
      assume "sublist n cs"
      then have "\<exists>l \<in> set (lines_acc [] cs). sublist n l" using Cons.IH [of "[]"] by simp
      with True show ?thesis by simp
    qed
  next
    case False
    from Cons.prems have "sublist n ((acc @ [c]) @ cs)" by simp
    then have "\<exists>l \<in> set (lines_acc (acc @ [c]) cs). sublist n l" by (rule Cons.IH)
    with False show ?thesis by simp
  qed
qed

subsection \<open>update\_cmakelists patches at most once\<close>

lemma indicator_no_nl: "nl \<notin> set indicator" "indicator \<noteq> []"
  by (simp_all add: indicator_def nl_def)

text \<open>
  The indicator holds no newline, so it occurs in some line of a file exactly when it
  occurs in the file.
\<close>

lemma indicator_in_some_line:
  "list_ex (str_in indicator) (readlines content) = str_in indicator content"
proof
  assume "list_ex (str_in indicator) (readlines content)"
  then obtain l where l: "l \<in> set (lines_acc [] content)" "sublist indicator l"
    by (auto simp: list_ex_iff readlines_def str_in_def)
  from l(1) have "sublist l content" using in_lines_acc_sublist [of l "[]" content] by simp
  with l(2) show "str_in indicator content"
    unfolding str_in_def by (rule sublist_order.order_trans)
next
  assume "str_in indicator content"
  then have "sublist indicator ([] @ content)" by (simp add: str_in_def)
  then have "\<exists>l \<in> set (lines_acc [] content). sublist indicator l"
    by (rule sublist_some_line [OF indicator_no_nl])
  then show "list_ex (str_in indicator) (readlines content)"
    by (simp add: list_ex_iff readlines_def str_in_def)
qed

lemma indicator_in_commands: "str_in indicator (content @ CMAKELISTS_COMMANDS w)"
proof -
  have "content @ CMAKELISTS_COMMANDS w =
      (content @ [nl] @ ''include_directories('' @ CBOR_PREFIX w @ ''/include)'' @ [nl]
        @ ''link_directories('' @ CBOR_PREFIX w @ ''/lib)'' @ [nl]) @ indicator @ [nl]"
    by (simp add: CMAKELISTS_COMMANDS_def indicator_def)
  then show ?thesis unfolding str_in_def by (metis sublist_appendI)
qed

lemma update_cmakelists_content:
  "update_cmakelists w p st =
     (case files st p of
        None \<Rightarrow> (Inl (Die (''not found: '' @ p) ENOENT), st)
      | Some c \<Rightarrow> (Inr (), if str_in indicator c then st
                  else st\<lparr>files := (files st)(p \<mapsto> c @ CMAKELISTS_COMMANDS w)\<rparr>))"
  by (simp add: update_cmakelists_def indicator_in_some_line die_def Let_def split: option.splits)

text \<open>
  Claim C9. Whatever a first run of \<open>update_cmakelists\<close> returns and leaves behind, a
  second run on what it left returns the same and changes nothing; and a run on an
  existing file appends the block of directives exactly when the indicator is absent
  from the file, leaving the file as it is otherwise.
\<close>

theorem update_cmakelists_at_most_once:
  assumes "update_cmakelists w p st = (r, st')"
  shows "update_cmakelists w p st' = (r, st') \<and>
         (\<forall>c. files st p = Some c \<longrightarrow>
            files st' p = Some (if str_in indicator c then c else c @ CMAKELISTS_COMMANDS w))"
  using assms
  by (auto simp: update_cmakelists_content indicator_in_commands split: option.splits if_splits)

theorem update_cmakelists_at_most_once_witness:
  "update_cmakelists plain_world cmakelists_path
     (snd (update_cmakelists plain_world cmakelists_path unpatched_state))
   = update_cmakelists plain_world cmakelists_path unpatched_state
   \<and> files (snd (update_cmakelists plain_world cmakelists_path unpatched_state)) cmakelists_path
     = Some (''add_subdirectory(clang-query)'' @ CMAKELISTS_COMMANDS plain_world)"
proof -
  have absent: "\<not> str_in indicator ''add_subdirectory(clang-query)''"
    by (simp add: str_in_def indicator_def sublist_code)
  have content: "files unpatched_state cmakelists_path = Some ''add_subdirectory(clang-query)''"
    by (simp add: unpatched_state_def)
  have run: "update_cmakelists plain_world cmakelists_path unpatched_state
      = (fst (update_cmakelists plain_world cmakelists_path unpatched_state),
         snd (update_cmakelists plain_world cmakelists_path unpatched_state))"
    by simp
  from update_cmakelists_at_most_once [OF run] content absent show ?thesis
    by simp
qed

subsection \<open>check\_sig\<close>

lemma check_sig_result:
  "fst (check_sig w afile asigfile st) =
     (if \<not> which w ''gpg'' then Inl (Die (''gpg not in path'') ENOENT)
      else if retcode (fst (exec w (recv_key_argv ''gpg'') (files st))) \<noteq> 0
      then Inl (Raise (ProcessExecutionError (retcode (fst (exec w (recv_key_argv ''gpg'') (files st))))))
      else if retcode (verify_outcome w afile asigfile st) \<noteq> 0
      then Inl (Die (''gpg signature check failed: gpg exit code ''
                      @ str_int (retcode (verify_outcome w afile asigfile st))) 1)
      else if \<not> str_in expected_signer (stderr (verify_outcome w afile asigfile st))
      then Inl (Die ''gpg signature check failed: expected signature not found'' 1)
      else Inr ())"
  by (simp add: check_sig_def get_cmd_or_die_def names_a_path_def bind_run_def ret_def die_def
      pb_call_def pb_run_def pb_popen_def verify_outcome_def Let_def split: prod.splits)

text \<open>
  Claim C7. \<open>check_sig\<close> ends normally only if \<open>gpg --verify\<close> exits with status 0 and
  its error output contains the expected signer; if the exit status is not 0, or the
  signer is missing from that output, the run ends with a failure whose exit status is
  not 0. In particular an exit status 0 without the signer still fails.
\<close>

theorem check_sig_needs_exit_code_and_identity:
  "(fst (check_sig w afile asigfile st) = Inr () \<longrightarrow>
      retcode (verify_outcome w afile asigfile st) = 0
      \<and> str_in expected_signer (stderr (verify_outcome w afile asigfile st)))
   \<and> (retcode (verify_outcome w afile asigfile st) \<noteq> 0
        \<or> \<not> str_in expected_signer (stderr (verify_outcome w afile asigfile st)) \<longrightarrow>
      (\<exists>e. fst (check_sig w afile asigfile st) = Inl e \<and> exit_status (Inl e :: exn + unit) \<noteq> 0))"
  by (auto simp: check_sig_result ENOENT_def)

lemma plain_verify_outcome: "verify_outcome plain_world a s st = quiet_proc"
  by (simp add: verify_outcome_def plain_world_def)

lemma signed_verify_outcome:
  "verify_outcome signed_world a s st
     = \<lparr>retcode = 0, stdout = [], stderr = signed_stderr\<rparr>"
  by (simp add: verify_outcome_def signed_world_def plain_world_def)

lemma signer_absent: "\<not> str_in expected_signer []"
  by (simp add: str_in_def expected_signer_def)

lemma signer_present: "str_in expected_signer signed_stderr"
  unfolding str_in_def signed_stderr_def by (rule sublist_appendI)

theorem check_sig_needs_exit_code_and_identity_witness:
  "retcode (verify_outcome plain_world ''a.tar.xz'' ''a.tar.xz.sig'' empty_state) = 0
   \<and> \<not> str_in expected_signer
         (stderr (verify_outcome plain_world ''a.tar.xz'' ''a.tar.xz.sig'' empty_state))
   \<and> (\<exists>e. fst (check_sig plain_world ''a.tar.xz'' ''a.tar.xz.sig'' empty_state) = Inl e
          \<and> exit_status (Inl e :: exn + unit) \<noteq> 0)
   \<and> fst (check_sig signed_world ''a.tar.xz'' ''a.tar.xz.sig'' empty_state) = Inr ()
   \<and> retcode (verify_outcome signed_world ''a.tar.xz'' ''a.tar.xz.sig'' empty_state) = 0
   \<and> str_in expected_signer
         (stderr (verify_outcome signed_world ''a.tar.xz'' ''a.tar.xz.sig'' empty_state))"
proof -
  have ok: "fst (check_sig signed_world ''a.tar.xz'' ''a.tar.xz.sig'' empty_state) = Inr ()"
    by (simp add: check_sig_result signed_verify_outcome signer_present)
       (simp add: signed_world_def plain_world_def)
  have bad: "\<not> str_in expected_signer
         (stderr (verify_outcome plain_world ''a.tar.xz'' ''a.tar.xz.sig'' empty_state))"
    by (simp add: plain_verify_outcome quiet_proc_def signer_absent)
  from check_sig_needs_exit_code_and_identity
         [of plain_world "''a.tar.xz''" "''a.tar.xz.sig''" empty_state]
       check_sig_needs_exit_code_and_identity
         [of signed_world "''a.tar.xz''" "''a.tar.xz.sig''" empty_state]
       ok bad
  show ?thesis by (simp add: plain_verify_outcome signed_verify_outcome quiet_proc_def signer_present)
qed

subsection \<open>get\_ninja\_build\_type on malformed files\<close>

lemma lines_acc_nonempty: "acc @ s \<noteq> [] \<Longrightarrow> lines_acc acc s \<noteq> []"
  by (induction s arbitrary: acc) auto

text \<open>
  Claim C8 asks for a controlled fatal error on every malformed build description, the
  empty file included. On an existing empty \<open>build.ninja\<close> the list of lines is empty
  and \<open>lines[0]\<close> raises \<open>IndexError\<close>, which nothing catches: no \<open>die\<close> is reached.
\<close>

theorem get_ninja_build_type_empty_file:
  "get_ninja_build_type ''/c2rust/llvm.build/build.ninja'' empty_ninja_state
     = (Inl (Raise IndexError), empty_ninja_state)"
  by (simp add: get_ninja_build_type_def empty_ninja_state_def readlines_def raise_def)

text \<open>
  On a file that is not empty the claim holds: a wrong first line and a missing
  configuration line both end in \<open>die\<close> with exit code 1, and the files stay as they are.
\<close>

lemma get_ninja_build_type_malformed:
  assumes "files st f = Some content" "content \<noteq> []"
    and "hd (readlines content) \<noteq> generator_signature
         \<or> first_configuration (readlines content) = None"
  shows "\<exists>emsg. get_ninja_build_type f st = (Inl (Die emsg 1), st)"
proof -
  from assms(2) have "readlines content \<noteq> []"
    by (simp add: readlines_def lines_acc_nonempty)
  then obtain l ls where "readlines content = l # ls" by (cases "readlines content") auto
  with assms(1,3) show ?thesis
    by (auto simp: get_ninja_build_type_def bind_run_def die_def ret_def split: option.splits)
qed

text \<open>The same failure seen from \<open>configure_and_build_llvm\<close>.\<close>

lemma empty_file_configure:
  "fst (configure_and_build_llvm plain_world False empty_ninja_state) = Inl (Raise IndexError)"
  by (simp add: configure_and_build_llvm_def get_cmd_or_die_def bind_run_def ret_def Let_def
      plain_world_def isfile_def ninja_build_file_def LLVM_BLD_def path_join_def
      get_ninja_build_type_def empty_ninja_state_def readlines_def raise_def)

subsection \<open>The pattern of get\_ninja\_build\_type reads the marker\<close>

lemma space_not_word: "is_space c \<Longrightarrow> \<not> is_word c"
  by (auto simp: is_space_def is_word_def Let_def)

lemma space_not_C: "is_space c \<Longrightarrow> c \<noteq> CHR ''C''"
  by (auto simp: is_space_def)

lemma cls_ok_classes: "cls_ok Space = is_space" "cls_ok Word = is_word"
  by (rule ext, simp)+

text \<open>
  A repetition whose characters all make the rest of the pattern fail at once gives
  nothing back: only its longest take counts.
\<close>

lemma backtrack_greedy:
  assumes "\<And>t x r. P x \<Longrightarrow> k t (x # r) = None"
  shows "\<forall>x \<in> set taken. P x \<Longrightarrow>
         backtrack k allow_empty taken rest =
           (if taken = [] \<and> \<not> allow_empty then None else k (rev taken) rest)"
proof (induction taken arbitrary: rest)
  case Nil
  show ?case by simp
next
  case (Cons x taken)
  then have px: "P x" and rest: "\<forall>y \<in> set taken. P y" by auto
  have later: "backtrack k allow_empty taken (x # rest) = None"
    using Cons.IH [OF rest, of "x # rest"] assms [OF px] by simp
  show ?case
    by (cases "k (rev (x # taken)) rest") (simp_all add: later)
qed

lemma rmatch_lits:
  "rmatch (lits s @ items) str Unset =
     (if prefix s str then rmatch items (drop (length s) str) Unset else None)"
proof (induction s arbitrary: str)
  case Nil
  show ?case by (simp add: lits_def)
next
  case (Cons c s)
  have step: "\<And>xs. rmatch (lits s @ items) xs Unset =
     (if prefix s xs then rmatch items (drop (length s) xs) Unset else None)"
    by (rule Cons.IH)
  show ?case
  proof (cases str)
    case Nil
    then show ?thesis by (simp add: lits_def)
  next
    case (Cons x xs)
    with step [of xs] show ?thesis by (auto simp: lits_def)
  qed
qed

lemma word_group:
  "rmatch [GroupOpen, Plus Word, GroupClose] s Unset =
     (if takeWhile is_word s = [] then None
      else Some (Closed (takeWhile is_word s), dropWhile is_word s))"
proof (cases "rev (takeWhile is_word s)")
  case Nil
  then show ?thesis by (simp add: cls_ok_classes)
next
  case (Cons x t)
  then have "takeWhile is_word s = rev (x # t)" by (metis rev_rev_ident)
  with Cons show ?thesis by (simp add: cls_ok_classes)
qed

lemma spaces_then_word:
  "rmatch [Star Space, GroupOpen, Plus Word, GroupClose] s Unset =
     (if takeWhile is_word (dropWhile is_space s) = [] then None
      else Some (Closed (takeWhile is_word (dropWhile is_space s)),
                 dropWhile is_word (dropWhile is_space s)))"
proof -
  let ?k = "\<lambda>taken rest. rmatch [GroupOpen, Plus Word, GroupClose] rest (push taken Unset)"
  have fails: "\<And>t x r. is_space x \<Longrightarrow> ?k t (x # r) = None"
    using word_group by (simp add: space_not_word)
  have all: "\<forall>x \<in> set (rev (takeWhile is_space s)). is_space x"
    by (auto dest: set_takeWhileD)
  have "rmatch [Star Space, GroupOpen, Plus Word, GroupClose] s Unset
      = backtrack ?k True (rev (takeWhile is_space s)) (dropWhile is_space s)"
    by (simp add: cls_ok_classes)
  also have "\<dots> = ?k (rev (rev (takeWhile is_space s))) (dropWhile is_space s)"
    using backtrack_greedy [of is_space ?k, OF fails all] by simp
  also have "\<dots> = rmatch [GroupOpen, Plus Word, GroupClose] (dropWhile is_space s) Unset"
    by simp
  finally show ?thesis by (simp only: word_group)
qed

lemma label_then_word:
  "rmatch (lits ''Configuration:'' @ [Star Space, GroupOpen, Plus Word, GroupClose]) s Unset =
     (if prefix ''Configuration:'' s
      then rmatch [Star Space, GroupOpen, Plus Word, GroupClose]
             (drop (length ''Configuration:'') s) Unset
      else None)"
  by (rule rmatch_lits)

lemma label_fails_on_space:
  "is_space x \<Longrightarrow>
   rmatch (lits ''Configuration:'' @ [Star Space, GroupOpen, Plus Word, GroupClose]) (x # r) Unset
     = None"
  by (simp only: label_then_word) (auto dest: space_not_C)

lemma spaces_then_label:
  "rmatch (Star Space # lits ''Configuration:'' @ [Star Space, GroupOpen, Plus Word, GroupClose])
     s Unset =
   rmatch (lits ''Configuration:'' @ [Star Space, GroupOpen, Plus Word, GroupClose])
     (dropWhile is_space s) Unset"
proof -
  let ?k = "\<lambda>taken rest.
      rmatch (lits ''Configuration:'' @ [Star Space, GroupOpen, Plus Word, GroupClose]) rest
        (push taken Unset)"
  have fails: "\<And>t x r. is_space x \<Longrightarrow> ?k t (x # r) = None"
    using label_fails_on_space by simp
  have all: "\<forall>x \<in> set (rev (takeWhile is_space s)). is_space x"
    by (auto dest: set_takeWhileD)
  have "rmatch (Star Space # lits ''Configuration:'' @ [Star Space, GroupOpen, Plus Word, GroupClose])
          s Unset
      = backtrack ?k True (rev (takeWhile is_space s)) (dropWhile is_space s)"
    by (simp add: cls_ok_classes)
  also have "\<dots> = ?k (rev (rev (takeWhile is_space s))) (dropWhile is_space s)"
    using backtrack_greedy [of is_space ?k, OF fails all] by simp
  finally show ?thesis by simp
qed

text \<open>The pattern of the code finds in a line exactly the marker of the specification.\<close>

lemma re_match_is_marker: "re_match configuration_re line = marker_flavor line"
proof (cases line)
  case Nil
  then show ?thesis
    by (simp add: re_match_def configuration_re_def lits_def marker_flavor_def)
next
  case (Cons c after_hash)
  have pat: "configuration_re =
      One (Lit CHR ''#'')
      # Star Space # lits ''Configuration:'' @ [Star Space, GroupOpen, Plus Word, GroupClose]"
    by (simp add: configuration_re_def lits_def)
  show ?thesis
  proof (cases "c = CHR ''#''")
    case False
    with Cons show ?thesis
      by (simp add: re_match_def pat marker_flavor_def del: rmatch.simps(2))
         (simp)
  next
    case True
    have "rmatch configuration_re line Unset =
        rmatch (lits ''Configuration:'' @ [Star Space, GroupOpen, Plus Word, GroupClose])
          (dropWhile is_space after_hash) Unset"
      unfolding pat using Cons True spaces_then_label [of after_hash] by simp
    then show ?thesis
      using Cons True
      by (simp only: re_match_def label_then_word spaces_then_word marker_flavor_def Let_def)
         (simp)
  qed
qed

lemma first_configuration_is_first_marker: "first_configuration ls = first_marker ls"
  by (induction ls) (simp_all add: re_match_is_marker split: option.splits)

subsection \<open>What get\_ninja\_build\_type returns\<close>

lemma first_line_prefix: "lines_acc acc s = l # ls \<Longrightarrow> prefix l (acc @ s)"
proof (induction s arbitrary: acc)
  case Nil
  then show ?case by (auto split: if_splits)
next
  case (Cons c cs)
  show ?case
  proof (cases "c = nl")
    case True
    with Cons.prems have "l = acc @ [c]" by simp
    then show ?thesis by simp
  next
    case False
    with Cons.prems have "lines_acc (acc @ [c]) cs = l # ls" by simp
    then have "prefix l ((acc @ [c]) @ cs)" by (rule Cons.IH)
    then show ?thesis by simp
  qed
qed

lemma signature_shape: "\<exists>s. generator_signature = s @ [nl] \<and> nl \<notin> set s"
  by (simp add: generator_signature_def nl_def)

text \<open>The first line is the generator's signature exactly when the file begins with it.\<close>

lemma first_line_is_signature:
  assumes "readlines content = l # ls"
  shows "l = generator_signature \<longleftrightarrow> prefix generator_signature content"
proof
  assume "l = generator_signature"
  with first_line_prefix [of "[]" content l ls] assms
  show "prefix generator_signature content" by (simp add: readlines_def)
next
  assume "prefix generator_signature content"
  then obtain rest where c: "content = generator_signature @ rest" by (auto simp: prefix_def)
  obtain s where s: "generator_signature = s @ [nl]" "nl \<notin> set s"
    using signature_shape by blast
  have "readlines content = lines_acc [] (s @ nl # rest)" by (simp add: readlines_def c s(1))
  also have "\<dots> = lines_acc [] (s @ [nl]) @ lines_acc [] rest" by (rule lines_acc_append_nl)
  also have "\<dots> = (s @ [nl]) # lines_acc [] rest" using lines_acc_snoc_nl [OF s(2), of "[]"] by simp
  finally show "l = generator_signature" using assms s(1) by simp
qed

lemma readlines_empty: "readlines content = [] \<longleftrightarrow> content = []"
  using lines_acc_nonempty [of "[]" content] by (auto simp: readlines_def)

lemma get_ninja_build_type_reads_marker:
  assumes "files st f = Some content"
  shows "get_ninja_build_type f st =
     (if content = [] then Inl (Raise IndexError)
      else if \<not> prefix generator_signature content
      then Inl (Die (''unexpected content in ninja.build: '' @ f) 1)
      else (case recorded_flavor content of
              Some flavor \<Rightarrow> Inr flavor
            | None \<Rightarrow> Inl (Die (''missing content in ninja.build: '' @ f) 1)), st)"
proof (cases "readlines content")
  case Nil
  then have "content = []" by (simp add: readlines_empty)
  with assms show ?thesis by (simp add: get_ninja_build_type_def readlines_def raise_def)
next
  case (Cons l ls)
  then have ne: "content \<noteq> []" using readlines_empty [of content] by auto
  note sig = first_line_is_signature [OF Cons]
  show ?thesis
  proof (cases "l = generator_signature")
    case False
    with assms Cons ne sig show ?thesis
      by (simp add: get_ninja_build_type_def bind_run_def die_def)
  next
    case True
    with sig have p: "prefix generator_signature content" by simp
    have r: "recorded_flavor content = first_configuration (l # ls)"
      by (simp only: recorded_flavor_def Cons first_configuration_is_first_marker)
    show ?thesis
      using assms Cons ne p True
      by (cases "first_configuration (l # ls)")
         (simp_all add: get_ninja_build_type_def bind_run_def die_def ret_def r
            del: first_configuration.simps)
  qed
qed

subsection \<open>configure\_and\_build\_llvm runs cmake only when needed\<close>

lemma invoke_trace: "trace (snd (invoke w argv st)) = trace st @ [Exec (environ st) argv]"
  by (simp add: invoke_def invoke_general_def pb_run_def pb_popen_def die_def Let_def
      split: prod.splits sum.splits exn.splits pyexc.splits)

lemma snd_bind_invoke_last:
  "snd (bind_run (invoke w argv) (\<lambda>_. ret ()) st) = snd (invoke w argv st)"
  by (cases "invoke w argv st") (auto simp: bind_run_def ret_def split: sum.splits)

lemma command_names: "\<not> names_a_path ''ninja''" "\<not> names_a_path ''cmake''"
  by (simp_all add: names_a_path_def)

lemma started_append: "trace st' = trace st @ evs \<Longrightarrow> started st st' = evs"
  by (simp add: started_def)

lemma configure_without_ninja:
  "\<not> which w ''ninja'' \<Longrightarrow> snd (configure_and_build_llvm w debug st) = st"
  by (simp add: configure_and_build_llvm_def get_cmd_or_die_def command_names bind_run_def die_def)

lemma configure_after_decision:
  assumes "which w ''ninja''"
    and "(if isfile st (ninja_build_file w)
          then bind_run (get_ninja_build_type (ninja_build_file w))
                 (\<lambda>prev_build_type. ret (prev_build_type \<noteq> build_type_of debug)) st
          else ret True st) = (d, st)"
  shows "configure_and_build_llvm w debug st =
     (case d of
        Inl e \<Rightarrow> (Inl e, st)
      | Inr run_cmake \<Rightarrow>
          bind_run
            (if run_cmake
             then bind_run (get_cmd_or_die w ''cmake'') (\<lambda>cmake.
                    bind_run (invoke w (cmake_argv w cmake (build_type_of debug))) (\<lambda>_. ret ()))
             else ret ())
            (\<lambda>_. bind_run (invoke w [''ninja'', ''ast-extractor'']) (\<lambda>_. ret ())) st)"
  using assms
  by (cases d)
     (simp_all add: configure_and_build_llvm_def get_cmd_or_die_def bind_run_def [of _ _ st]
        bind_run_def [of "ret ''ninja''"] ret_def [of "''ninja''"] Let_def)

text \<open>
  The decision of the function in the words of the claim: \<open>cmake\<close> is wanted when there is
  no \<open>build.ninja\<close>, or when the file begins with the generator's signature and records a
  flavor other than the requested one; a file that is empty, begins otherwise or
  records nothing ends the run.
\<close>

lemma signature_nonempty: "generator_signature \<noteq> []"
  by (simp add: generator_signature_def)

lemma decision_reads_marker:
  "\<exists>d. (if isfile st (ninja_build_file w)
          then bind_run (get_ninja_build_type (ninja_build_file w))
                 (\<lambda>prev_build_type. ret (prev_build_type \<noteq> build_type_of debug)) st
          else ret True st) = (d, st)
       \<and> (d = Inr True \<longleftrightarrow>
            (case files st (ninja_build_file w) of
               None \<Rightarrow> True
             | Some content \<Rightarrow>
                 prefix generator_signature content
                 \<and> (\<exists>flavor. recorded_flavor content = Some flavor
                       \<and> flavor \<noteq> build_type_of debug)))"
proof (cases "files st (ninja_build_file w)")
  case None
  then show ?thesis by (simp add: isfile_def ret_def)
next
  case (Some content)
  show ?thesis
    using Some
    by (cases "recorded_flavor content")
       (simp_all add: isfile_def bind_run_def ret_def signature_nonempty
          get_ninja_build_type_reads_marker [OF Some])
qed

lemma no_cmake_after_failure:
  assumes "which w ''ninja''"
    and "(if isfile st (ninja_build_file w)
          then bind_run (get_ninja_build_type (ninja_build_file w))
                 (\<lambda>prev_build_type. ret (prev_build_type \<noteq> build_type_of debug)) st
          else ret True st) = (Inl e, st)"
  shows "filter is_cmake (started st (snd (configure_and_build_llvm w debug st))) = []"
  using configure_after_decision [OF assms] by (simp add: started_def)

lemma no_cmake_when_not_needed:
  assumes "which w ''ninja''"
    and "(if isfile st (ninja_build_file w)
          then bind_run (get_ninja_build_type (ninja_build_file w))
                 (\<lambda>prev_build_type. ret (prev_build_type \<noteq> build_type_of debug)) st
          else ret True st) = (Inr False, st)"
  shows "filter is_cmake (started st (snd (configure_and_build_llvm w debug st))) = []"
proof -
  have "configure_and_build_llvm w debug st
      = bind_run (invoke w [''ninja'', ''ast-extractor'']) (\<lambda>_. ret ()) st"
    using configure_after_decision [OF assms]
    by (simp add: bind_run_def [of "ret ()"] ret_def [of "()"])
  then have "trace (snd (configure_and_build_llvm w debug st))
      = trace st @ [Exec (environ st) [''ninja'', ''ast-extractor'']]"
    by (simp add: snd_bind_invoke_last invoke_trace)
  from started_append [OF this] show ?thesis by simp
qed

lemma no_cmake_when_missing:
  assumes "which w ''ninja''" "\<not> which w ''cmake''"
    and "(if isfile st (ninja_build_file w)
          then bind_run (get_ninja_build_type (ninja_build_file w))
                 (\<lambda>prev_build_type. ret (prev_build_type \<noteq> build_type_of debug)) st
          else ret True st) = (Inr True, st)"
  shows "filter is_cmake (started st (snd (configure_and_build_llvm w debug st))) = []"
  using configure_after_decision [OF assms(1,3)] assms(2)
  by (simp add: get_cmd_or_die_def command_names bind_run_def die_def started_def)

lemma one_cmake_when_needed:
  assumes "which w ''ninja''" "which w ''cmake''"
    and "(if isfile st (ninja_build_file w)
          then bind_run (get_ninja_build_type (ninja_build_file w))
                 (\<lambda>prev_build_type. ret (prev_build_type \<noteq> build_type_of debug)) st
          else ret True st) = (Inr True, st)"
  shows "length (filter is_cmake (started st (snd (configure_and_build_llvm w debug st)))) = 1"
proof -
  let ?c = "invoke w (cmake_argv w ''cmake'' (build_type_of debug)) st"
  have c: "trace (snd ?c) = trace st @ [Exec (environ st) (cmake_argv w ''cmake'' (build_type_of debug))]"
    by (rule invoke_trace)
  let ?n = "invoke w [''ninja'', ''ast-extractor''] (snd ?c)"
  have n: "trace (snd ?n) = trace st @ [Exec (environ st) (cmake_argv w ''cmake'' (build_type_of debug)),
              Exec (environ (snd ?c)) [''ninja'', ''ast-extractor'']]"
    by (simp add: invoke_trace c)
  obtain rc s1 where rc: "?c = (rc, s1)" by (cases ?c) auto
  have "snd (configure_and_build_llvm w debug st) = snd ?c
        \<or> snd (configure_and_build_llvm w debug st) = snd ?n"
  proof (cases rc)
    case (Inl e)
    with rc assms(2) show ?thesis
      by (simp add: configure_after_decision [OF assms(1,3)] get_cmd_or_die_def bind_run_def ret_def)
  next
    case (Inr p)
    with rc assms(2) have "configure_and_build_llvm w debug st
        = bind_run (invoke w [''ninja'', ''ast-extractor'']) (\<lambda>_. ret ()) s1"
      by (simp add: configure_after_decision [OF assms(1,3)] get_cmd_or_die_def bind_run_def ret_def)
    with rc show ?thesis by (simp add: snd_bind_invoke_last)
  qed
  then have "started st (snd (configure_and_build_llvm w debug st))
           = [Exec (environ st) (cmake_argv w ''cmake'' (build_type_of debug))]
         \<or> started st (snd (configure_and_build_llvm w debug st))
           = [Exec (environ st) (cmake_argv w ''cmake'' (build_type_of debug)),
              Exec (environ (snd ?c)) [''ninja'', ''ast-extractor'']]"
    using c n by (auto intro: started_append)
  then show ?thesis by (auto simp: cmake_argv_def)
qed

text \<open>
  Claim C6 as amended. A run of \<open>configure_and_build_llvm\<close> starts \<open>cmake\<close> once if
  \<open>ninja\<close> and \<open>cmake\<close> are found and either there is no \<open>build.ninja\<close>, or the file
  begins with the generator's signature and the first marker line \<open># Configuration: <word>\<close>
  in it records a flavor other than the requested one; in every other case it does not
  start \<open>cmake\<close>.
\<close>

theorem cmake_runs_exactly_when_needed:
  "length (filter is_cmake (started st (snd (configure_and_build_llvm w debug st)))) =
     (if which w ''ninja'' \<and> which w ''cmake''
         \<and> (case files st (ninja_build_file w) of
               None \<Rightarrow> True
             | Some content \<Rightarrow>
                 prefix generator_signature content
                 \<and> (\<exists>flavor. recorded_flavor content = Some flavor
                       \<and> flavor \<noteq> build_type_of debug))
      then 1 else 0)"
proof (cases "which w ''ninja''")
  case False
  then show ?thesis by (simp add: configure_without_ninja started_def)
next
  case ninja: True
  obtain d where d: "(if isfile st (ninja_build_file w)
          then bind_run (get_ninja_build_type (ninja_build_file w))
                 (\<lambda>prev_build_type. ret (prev_build_type \<noteq> build_type_of debug)) st
          else ret True st) = (d, st)"
    and needed: "d = Inr True \<longleftrightarrow>
            (case files st (ninja_build_file w) of
               None \<Rightarrow> True
             | Some content \<Rightarrow>
                 prefix generator_signature content
                 \<and> (\<exists>flavor. recorded_flavor content = Some flavor
                       \<and> flavor \<noteq> build_type_of debug))"
    using decision_reads_marker [of st w debug] by blast
  show ?thesis
  proof (cases d)
    case (Inl e)
    with no_cmake_after_failure [OF ninja, of st debug e] d needed show ?thesis by simp
  next
    case (Inr run_cmake)
    show ?thesis
    proof (cases run_cmake)
      case False
      with Inr no_cmake_when_not_needed [OF ninja, of st debug] d needed show ?thesis by simp
    next
      case True
      with Inr d have dt: "(if isfile st (ninja_build_file w)
          then bind_run (get_ninja_build_type (ninja_build_file w))
                 (\<lambda>prev_build_type. ret (prev_build_type \<noteq> build_type_of debug)) st
          else ret True st) = (Inr True, st)" by simp
      from True Inr needed have n: "(case files st (ninja_build_file w) of
               None \<Rightarrow> True
             | Some content \<Rightarrow>
                 prefix generator_signature content
                 \<and> (\<exists>flavor. recorded_flavor content = Some flavor
                       \<and> flavor \<noteq> build_type_of debug))" by simp
      show ?thesis
      proof (cases "which w ''cmake''")
        case False
        with no_cmake_when_missing [OF ninja False dt] show ?thesis by simp
      next
        case True
        with one_cmake_when_needed [OF ninja True dt] ninja n show ?thesis by simp
      qed
    qed
  qed
qed

text \<open>
  Claim C6 says that the configuration step is invoked whenever no build description
  exists. Where \<open>cmake\<close> is not installed and there is no \<open>build.ninja\<close>, the step is needed
  but not invoked: \<open>get_cmd_or_die\<close> ends the run with \<open>ENOENT\<close> before any \<open>cmake\<close> starts.
\<close>

theorem needed_cmake_is_not_started_when_missing:
  "files empty_state (ninja_build_file no_cmake_world) = None
   \<and> length (filter is_cmake
        (started empty_state (snd (configure_and_build_llvm no_cmake_world False empty_state)))) = 0
   \<and> fst (configure_and_build_llvm no_cmake_world False empty_state)
     = Inl (Die ''cmake not in path'' 2)"
  by code_simp

text \<open>
  The runs of the claim: on a \<open>build.ninja\<close> that records \<open>Release\<close>, asking for \<open>Debug\<close>
  starts \<open>cmake\<close> once and asking for \<open>Release\<close> does not start it; on one that records
  \<open>Debug\<close> it is the other way round; without a \<open>build.ninja\<close> it is started.
\<close>

lemma release_file:
  "files release_state (ninja_build_file plain_world) = Some release_build_ninja"
  by (simp add: release_state_def ninja_build_file_def LLVM_BLD_def path_join_def plain_world_def)

lemma release_recorded:
  "prefix generator_signature release_build_ninja
   \<and> recorded_flavor release_build_ninja = Some ''Release''"
  by code_simp

lemma debug_file:
  "files debug_state (ninja_build_file plain_world) = Some debug_build_ninja"
  by (simp add: debug_state_def ninja_build_file_def LLVM_BLD_def path_join_def plain_world_def)

lemma debug_recorded:
  "prefix generator_signature debug_build_ninja
   \<and> recorded_flavor debug_build_ninja = Some ''Debug''"
  by code_simp

lemma no_file: "files empty_state (ninja_build_file plain_world) = None"
  by (simp add: empty_state_def)

theorem cmake_runs_exactly_when_needed_witness:
  "length (filter is_cmake
     (started release_state (snd (configure_and_build_llvm plain_world True release_state)))) = 1
   \<and> length (filter is_cmake
     (started release_state (snd (configure_and_build_llvm plain_world False release_state)))) = 0
   \<and> length (filter is_cmake
     (started debug_state (snd (configure_and_build_llvm plain_world True debug_state)))) = 0
   \<and> length (filter is_cmake
     (started debug_state (snd (configure_and_build_llvm plain_world False debug_state)))) = 1
   \<and> length (filter is_cmake
     (started empty_state (snd (configure_and_build_llvm plain_world False empty_state)))) = 1"
proof -
  have tools: "which plain_world ''ninja''" "which plain_world ''cmake''"
    by (simp_all add: plain_world_def)
  from cmake_runs_exactly_when_needed [of release_state plain_world True]
       cmake_runs_exactly_when_needed [of release_state plain_world False]
       cmake_runs_exactly_when_needed [of debug_state plain_world True]
       cmake_runs_exactly_when_needed [of debug_state plain_world False]
       cmake_runs_exactly_when_needed [of empty_state plain_world False]
  show ?thesis
    by (simp add: tools release_file release_recorded debug_file debug_recorded no_file
        build_type_of_def)
qed

subsection \<open>The download loop skips cached archives\<close>

lemma for_each_append:
  "for_each body (xs @ ys) st = bind_run (for_each body xs) (\<lambda>_. for_each body ys) st"
proof (induction xs arbitrary: st)
  case Nil
  show ?case by (simp add: bind_run_def ret_def)
next
  case (Cons x xs)
  show ?case
  proof (cases "body x st")
    case (Pair r st1)
    then show ?thesis using Cons.IH [of st1]
      by (cases r) (simp_all add: bind_run_def)
  qed
qed

lemma download_one_cached:
  "isfile_in (DEPS_DIR w) st afile \<Longrightarrow>
   download_one w curl (aurl, asig, afile, adir) st = (Inr (), st)"
  by (simp add: download_one_def ret_def)

text \<open>
  Claim C10. When the loop reaches an archive whose file is in the cache, the body does
  nothing: it ends normally in the very same state, so no process is started for it
  (no download of the archive or of its signature, no \<open>gpg\<close>) and no file is touched, and
  the loop goes on with the next archive from that state.
\<close>

theorem cached_archive_is_skipped:
  assumes "download_loop w curl before st = (Inr (), st1)"
    and "isfile_in (DEPS_DIR w) st1 afile"
  shows "download_one w curl (aurl, asig, afile, adir) st1 = (Inr (), st1)
         \<and> download_loop w curl (before @ (aurl, asig, afile, adir) # after) st
           = download_loop w curl after st1"
proof -
  have one: "download_one w curl (aurl, asig, afile, adir) st1 = (Inr (), st1)"
    using assms(2) by (rule download_one_cached)
  have "download_loop w curl (before @ (aurl, asig, afile, adir) # after) st
      = for_each (download_one w curl) ((aurl, asig, afile, adir) # after) st1"
    using assms(1) by (simp add: download_loop_def for_each_append bind_run_def)
  also have "\<dots> = download_loop w curl after st1"
    using one by (simp add: download_loop_def bind_run_def)
  finally show ?thesis using one by simp
qed

text \<open>With every archive in the cache the whole loop starts no process at all.\<close>

lemma download_loop_all_cached:
  "\<forall>a \<in> set archives. isfile_in (DEPS_DIR w) st (fst (snd (snd a))) \<Longrightarrow>
   download_loop w curl archives st = (Inr (), st)"
proof (induction archives)
  case Nil
  show ?case by (simp add: download_loop_def ret_def)
next
  case (Cons a archives)
  obtain aurl asig afile adir where a: "a = (aurl, asig, afile, adir)" by (cases a) auto
  with Cons.prems have "download_one w curl a st = (Inr (), st)"
    by (simp add: download_one_cached)
  with Cons show ?case by (simp add: download_loop_def bind_run_def)
qed

lemma cached_files:
  "LLVM_ARCHIVE_FILES plain_world =
     [''/c2rust/dependencies/llvm-4.0.1.src.tar.xz'',
      ''/c2rust/dependencies/cfe-4.0.1.src.tar.xz'',
      ''/c2rust/dependencies/clang-tools-extra-4.0.1.src.tar.xz'',
      ''/c2rust/dependencies/clang-tools-extra-4.0.1.src.tar.xz'']"
  by (simp add: LLVM_ARCHIVE_FILES_def LLVM_ARCHIVE_URLS_def LLVM_VER_def DEPS_DIR_def
      plain_world_def path_join_def basename_def)

theorem cached_archive_is_skipped_witness:
  "download_loop plain_world ''curl''
     [(LLVM_ARCHIVE_URLS ! 0, LLVM_SIGNATURE_URLS ! 0, LLVM_ARCHIVE_FILES plain_world ! 0,
       LLVM_ARCHIVE_DIRS ! 0)] cached_state = (Inr (), cached_state)
   \<and> isfile_in (DEPS_DIR plain_world) cached_state (LLVM_ARCHIVE_FILES plain_world ! 1)
   \<and> download_one plain_world ''curl''
       (LLVM_ARCHIVE_URLS ! 1, LLVM_SIGNATURE_URLS ! 1, LLVM_ARCHIVE_FILES plain_world ! 1,
        LLVM_ARCHIVE_DIRS ! 1) cached_state = (Inr (), cached_state)
   \<and> download_loop plain_world ''curl''
       ([(LLVM_ARCHIVE_URLS ! 0, LLVM_SIGNATURE_URLS ! 0, LLVM_ARCHIVE_FILES plain_world ! 0,
          LLVM_ARCHIVE_DIRS ! 0)]
        @ (LLVM_ARCHIVE_URLS ! 1, LLVM_SIGNATURE_URLS ! 1, LLVM_ARCHIVE_FILES plain_world ! 1,
           LLVM_ARCHIVE_DIRS ! 1) # []) cached_state
     = download_loop plain_world ''curl'' [] cached_state"
proof -
  have f0: "isfile_in (DEPS_DIR plain_world) cached_state (LLVM_ARCHIVE_FILES plain_world ! 0)"
    unfolding cached_files
    by (simp add: isfile_in_def isfile_def cached_state_def DEPS_DIR_def
        plain_world_def path_join_def)
  have f1: "isfile_in (DEPS_DIR plain_world) cached_state (LLVM_ARCHIVE_FILES plain_world ! 1)"
    unfolding cached_files
    by (simp add: isfile_in_def isfile_def cached_state_def DEPS_DIR_def
        plain_world_def path_join_def)
  have before: "download_loop plain_world ''curl''
     [(LLVM_ARCHIVE_URLS ! 0, LLVM_SIGNATURE_URLS ! 0, LLVM_ARCHIVE_FILES plain_world ! 0,
       LLVM_ARCHIVE_DIRS ! 0)] cached_state = (Inr (), cached_state)"
    using f0 by (simp add: download_loop_def download_one_cached bind_run_def ret_def)
  from cached_archive_is_skipped [OF before f1] before f1 show ?thesis by simp
qed

subsection \<open>The two scheduling modes of transpile\_files\<close>

text \<open>The sequential loop stops at the first job that fails and hands the failure on.\<close>

lemma for_each_fails_fast:
  "job cmd st = (Inl e, st') \<Longrightarrow> for_each job (cmd # cmds) st = (Inl e, st')"
  by (simp add: bind_run_def)

text \<open>The pool ends normally whatever its jobs do.\<close>

lemma submit_all_never_fails: "fst (submit_all job cmds st) = Inr ()"
  by (induction cmds arbitrary: st) simp_all

lemma thread_pool_never_fails: "0 < n \<Longrightarrow> fst (thread_pool n job cmds st) = Inr ()"
  by (simp add: thread_pool_def submit_all_never_fails)

text \<open>
  Claim C1 asks that a fatal error in one job ends the whole process and that the exit
  status is 0 only if every entry went through, in the pool as in the sequential mode.
  Three entries with three workers, the extraction of \<open>b.c\<close> failing: \<open>die\<close> is reached
  inside the job, but the process ends with status 0, with two imports started and no
  artifact for \<open>b.c\<close>.
\<close>

theorem pool_exits_zero_after_failed_job:
  "exit_status (fst (main (project_world [] [''/proj/b.c''] 0) (project_args False [] 3)
                      project_state)) = 0
   \<and> \<not> isfile (snd (main (project_world [] [''/proj/b.c''] 0) (project_args False [] 3)
                      project_state)) ''/proj/b.c.cbor''
   \<and> length (filter is_import
        (trace (snd (main (project_world [] [''/proj/b.c''] 0) (project_args False [] 3)
                      project_state)))) = 2"
  by code_simp

text \<open>The same project with one job at a time: the run stops at \<open>b.c\<close> with status 1.\<close>

lemma sequential_exits_nonzero_after_failed_job:
  "exit_status (fst (main (project_world [] [''/proj/b.c''] 0) (project_args False [] 1)
                      project_state)) = 1
   \<and> length (filter is_import
        (trace (snd (main (project_world [] [''/proj/b.c''] 0) (project_args False [] 1)
                      project_state)))) = 1"
  by code_simp

subsection \<open>The filter of transpile\_files\<close>

lemma f_is_unbound: "lookup_name c ''f'' = Inl (NameError ''f'')"
  by (simp add: lookup_name_def transpile_files_locals_def module_names_def builtin_names_def)

text \<open>On a database that is not empty the filter never gets past its first element.\<close>

lemma filter_db_raises: "filter_db flt (c # cs) = Inl (NameError ''f'')"
  by (simp add: filter_condition_def f_is_unbound)

text \<open>
  Claim C2 asks that a filter keeps exactly the entries whose file contains it and that
  filtering never crashes. The condition of the comprehension reads \<open>f['file']\<close> where the
  variable of the comprehension is \<open>c\<close>, and no \<open>f\<close> is bound: with the filter \<open>a\<close> on the
  project the run ends with \<open>NameError\<close>.
\<close>

theorem filter_raises_name_error:
  "fst (main (project_world [] [] 0) (project_args False ''a'' 3) project_state)
     = Inl (Raise (NameError ''f''))"
  by code_simp

subsection \<open>try\_locate\_elf\_object\<close>

text \<open>
  Claim C4 asks that an \<open>-o\<close> fragment ending in \<open>.o\<close> gives the object, \<open>-o build/out.o\<close>
  giving \<open>/proj/build/out.o\<close>. The pattern wants a white space behind the \<open>.o\<close>: with
  \<open>-o build/out.o\<close> as the last two arguments nothing matches, the function falls back
  to \<open>/proj/foo.o\<close>, and the object that exists at \<open>/proj/build/out.o\<close> is reported as
  not found.
\<close>

theorem output_flag_at_end_is_missed:
  "isfile out_of_tree_state ''/proj/build/out.o''
   \<and> fst (try_locate_elf_object plain_world flag_last_entry out_of_tree_state) = Inr None"
  by code_simp

text \<open>With the same flag before the source the object is found.\<close>

lemma output_flag_in_the_middle_is_found:
  "fst (try_locate_elf_object plain_world flag_first_entry out_of_tree_state)
     = Inr (Some ''/proj/build/out.o'')"
  by code_simp

text \<open>
  Without \<open>-o\<close> the function replaces every \<open>.c\<close> of the joined path, not the suffix of
  the file: below \<open>/home/dev/.cache\<close> it asks for
  \<open>/home/dev/.oache/proj/foo.o\<close> and misses the object next to the source.
\<close>

lemma replace_rewrites_directory:
  "str_replace ''.c'' ''.o'' (path_join ''/home/dev/.cache/proj'' ''foo.c'')
     = ''/home/dev/.oache/proj/foo.o''
   \<and> isfile cache_state ''/home/dev/.cache/proj/foo.o''
   \<and> fst (try_locate_elf_object plain_world cache_entry cache_state) = Inr None"
  by code_simp

subsection \<open>ensure\_code\_compiled\_with\_clang\<close>

text \<open>
  Claim C5 asks that the diagnostic lists the offending objects and only those. Of the
  three objects of the project only \<open>b.o\<close> lacks the \<open>clang\<close> comment; the gate fails, and
  its message lists all three objects, since it is built from \<open>comment_sections\<close> and not
  from \<open>non_clang_files\<close>.
\<close>

theorem diagnostic_lists_every_located_object:
  "fst (ensure_code_compiled_with_clang (project_world [''/proj/b.o''] [] 0)
          [source_entry ''a'', source_entry ''b'', source_entry ''c''] project_state)
     = Inl (Die (''some ELF objects were not compiled with clang:'' @ [nl]
                 @ ''/proj/a.o'' @ [nl] @ ''/proj/b.o'' @ [nl] @ ''/proj/c.o'') 1)"
  by code_simp

subsection \<open>The import step of transpile\_single\<close>

lemma invoke_quietly_result:
  "invoke_quietly w argv st =
     (let p = fst (exec w argv (files st));
          st' = st\<lparr>files := snd (exec w argv (files st)),
                   trace := trace st @ [Exec (environ st) argv]\<rparr>
      in if retcode p = 0 then (Inr p, st')
         else (Inl (Die (''cmd exited with code '' @ str_int (retcode p) @ '': ''
                         @ show_cmd w argv) (retcode p)), st'))"
  by (simp add: invoke_quietly_def invoke_general_def pb_run_def pb_popen_def die_def Let_def
      split: prod.splits)

text \<open>
  Claim C3 says that a non-zero exit status of the conversion tool does not make the run
  fail. With one job at a time the project is transpiled when the importer exits with 0,
  and the run ends with status 1 when the importer exits with 1.
\<close>

theorem import_status_fails_sequential_run:
  "fst (main (project_world [] [] 0) (project_args False [] 1) project_state) = Inr ()
   \<and> exit_status (fst (main (project_world [] [] 1) (project_args False [] 1) project_state)) = 1"
  by code_simp

text \<open>
  Claim C3 as amended. Once the artifact of an entry is there, \<open>transpile_single\<close> hands
  it to the importer and does not look at the status that \<open>invoke_quietly\<close> returns; but
  \<open>invoke_quietly\<close> returns only if the importer exits with 0, and ends the job by \<open>die\<close>
  with the importer's exit status as exit code otherwise.
\<close>

theorem import_exit_status_is_checked:
  assumes "cbor_file_of w a ast_extr include_dirs cmd st = (Inr cbor_file, st1)"
    and "isfile st1 cbor_file"
  shows "fst (transpile_single w a ast_extr ast_impo include_dirs cmd st) =
           (if retcode (fst (exec w [ast_impo, cbor_file] (files st1))) = 0 then Inr ()
            else Inl (Die (''cmd exited with code ''
                           @ str_int (retcode (fst (exec w [ast_impo, cbor_file] (files st1))))
                           @ '': '' @ show_cmd w [ast_impo, cbor_file])
                          (retcode (fst (exec w [ast_impo, cbor_file] (files st1))))))"
  using assms
  by (simp add: transpile_single_def bind_run_def local_env_def invoke_quietly_result Let_def
      ret_def)

theorem import_exit_status_is_checked_witness:
  "cbor_file_of (project_world [] [] 1) (project_args True [] 1) ''ast-extractor'' []
     (source_entry ''a'') extracted_state = (Inr ''/proj/a.c.cbor'', extracted_state)
   \<and> isfile extracted_state ''/proj/a.c.cbor''
   \<and> fst (transpile_single (project_world [] [] 1) (project_args True [] 1) ''ast-extractor''
            ''ast-importer'' [] (source_entry ''a'') extracted_state)
     = Inl (Die ''cmd exited with code 1: ast-importer /proj/a.c.cbor'' 1)
   \<and> fst (transpile_single (project_world [] [] 0) (project_args True [] 1) ''ast-extractor''
            ''ast-importer'' [] (source_entry ''a'') extracted_state)
     = Inr ()"
proof -
  have c: "cbor_file_of (project_world [] [] 1) (project_args True [] 1) ''ast-extractor'' []
     (source_entry ''a'') extracted_state = (Inr ''/proj/a.c.cbor'', extracted_state)"
    by (simp add: cbor_file_of_def project_args_def source_entry_def ret_def path_join_def)
  have c0: "cbor_file_of (project_world [] [] 0) (project_args True [] 1) ''ast-extractor'' []
     (source_entry ''a'') extracted_state = (Inr ''/proj/a.c.cbor'', extracted_state)"
    by (simp add: cbor_file_of_def project_args_def source_entry_def ret_def path_join_def)
  have f: "isfile extracted_state ''/proj/a.c.cbor''"
    by (simp add: isfile_def extracted_state_def)
  have rc: "retcode (fst (exec (project_world [] [] 1) [''ast-importer'', ''/proj/a.c.cbor'']
               (files extracted_state))) = 1"
    by (simp add: project_world_def project_exec_def plain_world_def basename_def)
  have rc0: "retcode (fst (exec (project_world [] [] 0) [''ast-importer'', ''/proj/a.c.cbor'']
               (files extracted_state))) = 0"
    by (simp add: project_world_def project_exec_def plain_world_def basename_def)
  have msg: "''cmd exited with code '' @ str_int 1 @ '': ''
               @ show_cmd (project_world [] [] 1) [''ast-importer'', ''/proj/a.c.cbor'']
             = ''cmd exited with code 1: ast-importer /proj/a.c.cbor''"
    by (simp add: project_world_def plain_world_def str_int_def nat_digits.simps)
  from import_exit_status_is_checked [OF c f, of "''ast-importer''"]
       import_exit_status_is_checked [OF c0 f, of "''ast-importer''"] c f rc rc0 msg
  show ?thesis by simp
qed

end
